theory Spec2Isabelle
  imports Main "HOL-Library.Word" "HOL-Library.AList"
begin

section \<open>Crypto helpers: secure random strings (oauth-encryption)\<close>

text \<open>
  \<^verbatim>\<open>crypto.randomBytes(n)\<close> is modelled over an entropy source \<open>rnd\<close>, the stream of
  bytes the generator delivers; the call returns its first \<open>n\<close> bytes.
\<close>

type_synonym byte = "8 word"
type_synonym entropy = "nat \<Rightarrow> byte"

definition randomBytes :: "nat \<Rightarrow> entropy \<Rightarrow> byte list" where
  "randomBytes n rnd = map rnd [0..<n]"

text \<open>
  \<^verbatim>\<open>Buffer.toString("base64url")\<close>: RFC 4648 section 5, the URL-safe alphabet, no padding.
  Three bytes give four characters, a rest of one byte gives two and a rest of two gives three.
\<close>

definition b64url_alphabet :: string where
  "b64url_alphabet = ''ABCDEFGHIJKLMNOPQRSTUVWXYZabcdefghijklmnopqrstuvwxyz0123456789-_''"

definition b64char :: "nat \<Rightarrow> char" where
  "b64char n = b64url_alphabet ! (n mod 64)"

fun base64url :: "byte list \<Rightarrow> string" where
  "base64url [] = []"
| "base64url [a] =
     [b64char (unat a div 4), b64char ((unat a mod 4) * 16)]"
| "base64url [a, b] =
     [b64char (unat a div 4), b64char ((unat a mod 4) * 16 + unat b div 16),
      b64char ((unat b mod 16) * 4)]"
| "base64url (a # b # c # rest) =
     [b64char (unat a div 4), b64char ((unat a mod 4) * 16 + unat b div 16),
      b64char ((unat b mod 16) * 4 + unat c div 64), b64char (unat c mod 64)]
     @ base64url rest"

text \<open>
  \<^verbatim>\<open>
  export function generateSecureRandom(length: number): string {
    return crypto.randomBytes(length).toString("base64url").slice(0, length);
  }
  \<close>
\<close>

definition generateSecureRandom :: "nat \<Rightarrow> entropy \<Rightarrow> string" where
  "generateSecureRandom len rnd = take len (base64url (randomBytes len rnd))"

text \<open>\<^verbatim>\<open>OAUTH_CONSTANTS\<close> (oauth-types).\<close>

definition STATE_LENGTH :: nat where "STATE_LENGTH = 32"
definition VERIFIER_LENGTH :: nat where "VERIFIER_LENGTH = 64"
definition DEFAULT_EXPIRY_BUFFER :: int where "DEFAULT_EXPIRY_BUFFER = 300"
definition MAX_REFRESH_RETRIES :: nat where "MAX_REFRESH_RETRIES = 3"

text \<open>Two entropy sources that differ in byte 31 only.\<close>

definition zero_entropy :: entropy where
  "zero_entropy = (\<lambda>i. 0)"

definition last_byte_entropy :: entropy where
  "last_byte_entropy = (\<lambda>i. if i = 31 then 1 else 0)"

section \<open>Tool preferences (server-tools-repository, tool-filter-service)\<close>

text \<open>
  JavaScript truthiness of an optional string: \<^verbatim>\<open>undefined\<close>, \<^verbatim>\<open>null\<close> and the empty
  string are falsy. \<open>orNull x\<close> is \<^verbatim>\<open>x || null\<close>.
\<close>

definition truthy :: "string option \<Rightarrow> bool" where
  "truthy x = (case x of None \<Rightarrow> False | Some s \<Rightarrow> s \<noteq> [])"

definition orNull :: "string option \<Rightarrow> string option" where
  "orNull x = (if truthy x then x else None)"

text \<open>A row of table \<^verbatim>\<open>server_tools\<close>; \<open>tool_clientId = None\<close> is the SQL NULL of a global row.\<close>

record ServerTool =
  tool_id :: string
  tool_serverId :: string
  toolName :: string
  tool_clientId :: "string option"
  enabled :: bool
  originalDescription :: "string option"
  customName :: "string option"
  customDescription :: "string option"
  tool_createdAt :: int
  tool_updatedAt :: int

record ToolPreferenceUpdate =
  pref_toolName :: string
  pref_clientId :: "string option"
  pref_enabled :: bool
  pref_originalDescription :: "string option"
  pref_customName :: "string option"
  pref_customDescription :: "string option"

subsection \<open>ServerToolsRepository\<close>

text \<open>
  The table is the list of its rows in insertion order; \<^verbatim>\<open>stmt.get\<close> returns the first
  row that matches. \<^verbatim>\<open>client_id = ?\<close> never matches a NULL.
\<close>

definition clientRow :: "string \<Rightarrow> string \<Rightarrow> string option \<Rightarrow> ServerTool \<Rightarrow> bool" where
  "clientRow s t c r = (tool_serverId r = s \<and> toolName r = t \<and> tool_clientId r = c)"

definition globalRow :: "string \<Rightarrow> string \<Rightarrow> ServerTool \<Rightarrow> bool" where
  "globalRow s t r = (tool_serverId r = s \<and> toolName r = t \<and> tool_clientId r = None)"

definition getServerTool ::
  "ServerTool list \<Rightarrow> string \<Rightarrow> string \<Rightarrow> string option \<Rightarrow> ServerTool option" where
  "getServerTool tbl s t c =
     (if truthy c then
        (case find (clientRow s t c) tbl of
           Some r \<Rightarrow> Some r
         | None \<Rightarrow> find (globalRow s t) tbl)
      else find (globalRow s t) tbl)"

text \<open>The WHERE clause shared by the UPDATE statements of upsert and bulk update.\<close>

definition scopeRow :: "string \<Rightarrow> string \<Rightarrow> string option \<Rightarrow> ServerTool \<Rightarrow> bool" where
  "scopeRow s t c r = (if truthy c then clientRow s t c r else globalRow s t r)"

definition coalesce :: "string option \<Rightarrow> string option \<Rightarrow> string option" where
  "coalesce a b = (case a of Some v \<Rightarrow> Some v | None \<Rightarrow> b)"

definition updateRow :: "ToolPreferenceUpdate \<Rightarrow> int \<Rightarrow> ServerTool \<Rightarrow> ServerTool" where
  "updateRow p now r =
     r\<lparr>enabled := pref_enabled p,
       originalDescription :=
         coalesce (orNull (pref_originalDescription p)) (originalDescription r),
       customName := orNull (pref_customName p),
       customDescription := orNull (pref_customDescription p),
       tool_updatedAt := now\<rparr>"

definition insertRow ::
  "string \<Rightarrow> string \<Rightarrow> string option \<Rightarrow> ToolPreferenceUpdate \<Rightarrow> int \<Rightarrow> ServerTool" where
  "insertRow uuid s c p now =
     \<lparr>tool_id = uuid, tool_serverId = s, toolName = pref_toolName p,
      tool_clientId = orNull c, enabled = pref_enabled p,
      originalDescription = orNull (pref_originalDescription p),
      customName = orNull (pref_customName p),
      customDescription = orNull (pref_customDescription p),
      tool_createdAt = now, tool_updatedAt = now\<rparr>"

text \<open>
  \<^verbatim>\<open>upsertToolPreference\<close>: \<open>now\<close> is \<^verbatim>\<open>Date.now()\<close>, \<open>uuid\<close> the value of
  \<^verbatim>\<open>uuidv4()\<close> used if a row is inserted. The existence test goes through
  \<open>getServerTool\<close>, fallback included, as in the source.
\<close>

definition upsertToolPreference ::
  "ServerTool list \<Rightarrow> int \<Rightarrow> string \<Rightarrow> string \<Rightarrow> ToolPreferenceUpdate
     \<Rightarrow> ServerTool option \<times> ServerTool list" where
  "upsertToolPreference tbl now uuid s p =
     (let t = pref_toolName p; c = pref_clientId p;
          tbl' = (case getServerTool tbl s t c of
                    Some existing \<Rightarrow>
                      map (\<lambda>r. if scopeRow s t c r then updateRow p now r else r) tbl
                  | None \<Rightarrow> tbl @ [insertRow uuid s c p now])
      in (getServerTool tbl' s t c, tbl'))"

definition deleteServerToolPreferences :: "ServerTool list \<Rightarrow> string \<Rightarrow> bool \<times> ServerTool list" where
  "deleteServerToolPreferences tbl s =
     (list_ex (\<lambda>r. tool_serverId r = s) tbl, filter (\<lambda>r. tool_serverId r \<noteq> s) tbl)"

definition setAllEnabled :: "bool \<Rightarrow> ServerTool list \<Rightarrow> int \<Rightarrow> string \<Rightarrow> ServerTool list" where
  "setAllEnabled b tbl now s =
     map (\<lambda>r. if tool_serverId r = s then r\<lparr>enabled := b, tool_updatedAt := now\<rparr> else r) tbl"

definition repo_enableAllTools :: "ServerTool list \<Rightarrow> int \<Rightarrow> string \<Rightarrow> ServerTool list" where
  "repo_enableAllTools = setAllEnabled True"

definition repo_disableAllTools :: "ServerTool list \<Rightarrow> int \<Rightarrow> string \<Rightarrow> ServerTool list" where
  "repo_disableAllTools = setAllEnabled False"

subsection \<open>ToolFilterService\<close>

text \<open>
  The service's state: the table behind \<^verbatim>\<open>getServerToolsRepository()\<close> and the
  two-level \<^verbatim>\<open>toolPreferencesCache\<close>.
\<close>

record ToolFilterService =
  server_tools :: "ServerTool list"
  toolPreferencesCache :: "string \<rightharpoonup> (string \<rightharpoonup> ServerTool)"

definition cacheKey :: "string \<Rightarrow> string option \<Rightarrow> string" where
  "cacheKey s c = s @ '':'' @ (case orNull c of Some x \<Rightarrow> x | None \<Rightarrow> ''global'')"

definition updateCache ::
  "ToolFilterService \<Rightarrow> string \<Rightarrow> string \<Rightarrow> ServerTool \<Rightarrow> ToolFilterService" where
  "updateCache svc k t p =
     (let m = (case toolPreferencesCache svc k of None \<Rightarrow> Map.empty | Some m \<Rightarrow> m)
      in svc\<lparr>toolPreferencesCache := (toolPreferencesCache svc)(k \<mapsto> m(t \<mapsto> p))\<rparr>)"

definition cacheLookup :: "ToolFilterService \<Rightarrow> string \<Rightarrow> string \<Rightarrow> ServerTool option" where
  "cacheLookup svc k t = (case toolPreferencesCache svc k of None \<Rightarrow> None | Some m \<Rightarrow> m t)"

definition getToolPreference ::
  "ToolFilterService \<Rightarrow> string \<Rightarrow> string \<Rightarrow> string option
     \<Rightarrow> ServerTool option \<times> ToolFilterService" where
  "getToolPreference svc s t c =
     (let k = cacheKey s c in
      case cacheLookup svc k t of
        Some p \<Rightarrow> (Some p, svc)
      | None \<Rightarrow>
          (case getServerTool (server_tools svc) s t c of
             Some p \<Rightarrow> (Some p, updateCache svc k t p)
           | None \<Rightarrow> (None, svc)))"

definition isToolEnabled ::
  "ToolFilterService \<Rightarrow> string \<Rightarrow> string \<Rightarrow> string option \<Rightarrow> bool \<times> ToolFilterService" where
  "isToolEnabled svc s t c =
     (case getToolPreference svc s t c of
        (Some p, svc') \<Rightarrow> (enabled p, svc')
      | (None, svc') \<Rightarrow> (True, svc'))"

definition updateToolPreference ::
  "ToolFilterService \<Rightarrow> int \<Rightarrow> string \<Rightarrow> string \<Rightarrow> ToolPreferenceUpdate
     \<Rightarrow> ServerTool option \<times> ToolFilterService" where
  "updateToolPreference svc now uuid s p =
     (case upsertToolPreference (server_tools svc) now uuid s p of
        (Some r, tbl') \<Rightarrow>
          (Some r, updateCache (svc\<lparr>server_tools := tbl'\<rparr>)
                     (cacheKey s (pref_clientId p)) (pref_toolName p) r)
      | (None, tbl') \<Rightarrow> (None, svc\<lparr>server_tools := tbl'\<rparr>))"

text \<open>The three bulk operations delete the cache entry under the bare server id.\<close>

definition enableAllTools :: "ToolFilterService \<Rightarrow> int \<Rightarrow> string \<Rightarrow> ToolFilterService" where
  "enableAllTools svc now s =
     svc\<lparr>server_tools := repo_enableAllTools (server_tools svc) now s,
         toolPreferencesCache := (toolPreferencesCache svc)(s := None)\<rparr>"

definition disableAllTools :: "ToolFilterService \<Rightarrow> int \<Rightarrow> string \<Rightarrow> ToolFilterService" where
  "disableAllTools svc now s =
     svc\<lparr>server_tools := repo_disableAllTools (server_tools svc) now s,
         toolPreferencesCache := (toolPreferencesCache svc)(s := None)\<rparr>"

definition resetToolPreferences :: "ToolFilterService \<Rightarrow> string \<Rightarrow> bool \<times> ToolFilterService" where
  "resetToolPreferences svc s =
     (case deleteServerToolPreferences (server_tools svc) s of
        (changed, tbl') \<Rightarrow>
          (changed, svc\<lparr>server_tools := tbl',
                        toolPreferencesCache := (toolPreferencesCache svc)(s := None)\<rparr>))"

subsection \<open>IPC handlers and the renderer's calls\<close>

text \<open>
  The renderer invokes \<^verbatim>\<open>"tool:enableAll"\<close>, \<^verbatim>\<open>"tool:disableAll"\<close> and
  \<^verbatim>\<open>"tool:resetPreferences"\<close> with \<^verbatim>\<open>(serverId, clientId)\<close>; the handlers declare
  \<^verbatim>\<open>serverId\<close> only and pass it on.
\<close>

definition ipc_tool_enableAll ::
  "ToolFilterService \<Rightarrow> int \<Rightarrow> string \<Rightarrow> string option \<Rightarrow> ToolFilterService" where
  "ipc_tool_enableAll svc now serverId clientId = enableAllTools svc now serverId"

definition ipc_tool_disableAll ::
  "ToolFilterService \<Rightarrow> int \<Rightarrow> string \<Rightarrow> string option \<Rightarrow> ToolFilterService" where
  "ipc_tool_disableAll svc now serverId clientId = disableAllTools svc now serverId"

definition ipc_tool_resetPreferences ::
  "ToolFilterService \<Rightarrow> string \<Rightarrow> string option \<Rightarrow> bool \<times> ToolFilterService" where
  "ipc_tool_resetPreferences svc serverId clientId = resetToolPreferences svc serverId"

text \<open>The rows of one \<open>(serverId, clientId)\<close> scope.\<close>

definition scopeRows :: "ServerTool list \<Rightarrow> string \<Rightarrow> string option \<Rightarrow> ServerTool list" where
  "scopeRows tbl s c = filter (\<lambda>r. tool_serverId r = s \<and> tool_clientId r = c) tbl"

text \<open>A fresh service over an empty table, and the preference updates of the scenarios.\<close>

definition emptyToolService :: ToolFilterService where
  "emptyToolService = \<lparr>server_tools = [], toolPreferencesCache = Map.empty\<rparr>"

definition disablePref :: "string \<Rightarrow> string option \<Rightarrow> ToolPreferenceUpdate" where
  "disablePref t c =
     \<lparr>pref_toolName = t, pref_clientId = c, pref_enabled = False,
      pref_originalDescription = None, pref_customName = None,
      pref_customDescription = None\<rparr>"

text \<open>
  Scenario for the cache: disable tool \<open>t1\<close> of server \<open>s1\<close> globally, then reset the
  server's preferences.
\<close>

definition staleCacheService :: ToolFilterService where
  "staleCacheService =
     snd (resetToolPreferences
            (snd (updateToolPreference emptyToolService 1000 ''u1'' ''s1''
                    (disablePref ''t1'' None)))
            ''s1'')"

text \<open>
  Scenario for the bulk operations: server \<open>s1\<close> has a global row for \<open>t1\<close> and a row of
  client \<open>c1\<close> for \<open>t2\<close>, both disabled.
\<close>

definition twoScopeService :: ToolFilterService where
  "twoScopeService =
     snd (updateToolPreference
            (snd (updateToolPreference emptyToolService 1000 ''u1'' ''s1''
                    (disablePref ''t1'' None)))
            2000 ''u2'' ''s1'' (disablePref ''t2'' (Some ''c1'')))"

section \<open>OAuth storage: encryption and repository (oauth-encryption, server-oauth-repository)\<close>

subsection \<open>Values, errors and the persistent state\<close>

text \<open>
  AES-256-GCM is modelled symbolically. A string value is either a literal or the sealed
  form \<open>Sealed k iv p\<close>, standing for the base64 text of \<^verbatim>\<open>iv || tag || ciphertext\<close> of
  \<open>p\<close> under key \<open>k\<close>. Only the key that sealed a value opens it, and a literal never
  passes the authentication tag check. Keys, initialisation vectors, salts and UUIDs are
  drawn from one generator whose draws are pairwise distinct.
\<close>

type_synonym key = nat

datatype str = Plain string | Sealed key nat str

datatype error = Error string

text \<open>JavaScript truthiness of a string and of an optional string.\<close>

definition nonempty :: "str \<Rightarrow> bool" where
  "nonempty s = (s \<noteq> Plain [])"

definition present :: "str option \<Rightarrow> bool" where
  "present x = (case x of None \<Rightarrow> False | Some s \<Rightarrow> nonempty s)"

datatype json = JStr string | JNum int | JBool bool

datatype OAuthSecurityEvent =
    TOKEN_CREATED | TOKEN_REFRESHED | TOKEN_REVOKED | TOKEN_EXPIRED
  | TOKEN_VALIDATION_FAILED | KEY_ROTATED | SUSPICIOUS_ACTIVITY | RATE_LIMIT_EXCEEDED
  | AUTHENTICATION_STARTED | AUTHENTICATION_COMPLETED | AUTHENTICATION_FAILED
  | CONFIGURATION_CHANGED | CONFIGURATION_DELETED

datatype severity = Info | Warning | Failure | Critical

record SecurityAuditLog =
  log_id :: string
  log_timestamp :: int
  eventType :: OAuthSecurityEvent
  log_severity :: severity
  log_serverId :: "string option"
  details :: "(string \<times> json) list"

record KeyRotationConfig =
  rotationIntervalDays :: int
  keyVersion :: nat
  lastRotation :: int
  nextRotation :: int

text \<open>
  \<^verbatim>\<open>OAuthConfig\<close> and \<^verbatim>\<open>OAuthToken\<close>, used both for the objects the services handle and
  for the rows of \<^verbatim>\<open>server_oauth_configs\<close> and \<^verbatim>\<open>server_oauth_tokens\<close>. The columns
  that no modelled decision reads are left out, being stored and read back unchanged:
  of the configuration the provider, the discovery endpoints, the flags, the audience
  and the additional parameters; of the token \<^verbatim>\<open>notBefore\<close>, audience, issuer and
  subject.
\<close>

record OAuthConfig =
  cfg_id :: "string option"
  cfg_serverId :: string
  cfg_clientId :: string
  clientSecret :: "str option"
  cfg_scopes :: "string list"
  tokenEndpoint :: "string option"
  cfg_createdAt :: "int option"
  cfg_updatedAt :: "int option"

record OAuthToken =
  tok_id :: "string option"
  tok_serverId :: string
  accessToken :: str
  refreshToken :: "str option"
  idToken :: "str option"
  tokenType :: string
  expiresAt :: "int option"
  tok_scopes :: "string list option"
  issuedAt :: "int option"
  lastUsed :: "int option"
  refreshCount :: "nat option"
  tok_createdAt :: "int option"
  tok_updatedAt :: "int option"

text \<open>
  Backup files (oauth-backup). The checksum is the SHA-256 digest of the JSON text of
  \<^verbatim>\<open>{configs, tokens}\<close>, kept as the data it was computed from. Of the metadata, the
  machine id and the application version are left out: no decision reads them.
\<close>

datatype digest = NoDigest | Sha256 "OAuthConfig list" "OAuthToken list"

record BackupMetadata =
  bk_version :: string
  bk_createdAt :: int
  totalConfigs :: nat
  totalTokens :: nat
  checksum :: digest

record OAuthBackup =
  metadata :: BackupMetadata
  bk_configs :: "OAuthConfig list"
  bk_tokens :: "OAuthToken list"
  encrypted :: bool
  encryptionMethod :: "string option"

text \<open>
  The data written to a backup file: the JSON text of the backup, or the output of
  \<^verbatim>\<open>encryptBackup\<close>, \<open>PasswordSealed password salt iv backup\<close>, which only the same
  password opens.
\<close>

datatype file_data =
    JsonText OAuthBackup
  | PasswordSealed string nat nat OAuthBackup

record BackupHistory =
  bh_id :: string
  bh_timestamp :: int
  bh_path :: string
  bh_metadata :: BackupMetadata
  automatic :: bool

text \<open>
  The state the OAuth services share: the key file \<^verbatim>\<open>.oauth-key\<close>, the generator, the
  two tables, the files written by the backup service, the backup history, the audit log
  in memory and in \<^verbatim>\<open>oauth-audit.log\<close>, the key rotation metadata (kept in memory and
  written to \<^verbatim>\<open>oauth-keys.json\<close>), and the token manager's maps with the number of
  requests sent to the token endpoint so far. An entry of \<open>refreshPromises\<close> is a pending
  refresh, given by the outcome it settles to.
\<close>

record world =
  keyFile :: "key option"
  rng :: nat
  server_oauth_configs :: "OAuthConfig list"
  server_oauth_tokens :: "OAuthToken list"
  files :: "(string \<times> file_data) list"
  backupHistory :: "BackupHistory list"
  auditLogs :: "SecurityAuditLog list"
  auditLogFile :: "SecurityAuditLog list"
  keyRotationConfig :: KeyRotationConfig
  refreshPromises :: "(string \<times> (error + OAuthToken)) list"
  tokenRefreshTimers :: "(string \<times> int) list"
  httpExchanges :: nat

subsection \<open>Computations that may throw\<close>

text \<open>
  A computation takes the state and returns a value or the thrown error, with the state
  at that point: what was written before an exception stays written.
\<close>

type_synonym 'a io = "world \<Rightarrow> (error + 'a) \<times> world"

definition ret :: "'a \<Rightarrow> 'a io" where
  "ret x = (\<lambda>w. (Inr x, w))"

definition throw :: "error \<Rightarrow> 'a io" where
  "throw e = (\<lambda>w. (Inl e, w))"

definition bind :: "'a io \<Rightarrow> ('a \<Rightarrow> 'b io) \<Rightarrow> 'b io" where
  "bind m f = (\<lambda>w. case m w of (Inl e, w') \<Rightarrow> (Inl e, w') | (Inr x, w') \<Rightarrow> f x w')"

definition tryCatch :: "'a io \<Rightarrow> (error \<Rightarrow> 'a io) \<Rightarrow> 'a io" where
  "tryCatch m h = (\<lambda>w. case m w of (Inl e, w') \<Rightarrow> h e w' | (Inr x, w') \<Rightarrow> (Inr x, w'))"

definition modify :: "(world \<Rightarrow> world) \<Rightarrow> unit io" where
  "modify f = (\<lambda>w. (Inr (), f w))"

definition gets :: "(world \<Rightarrow> 'a) \<Rightarrow> 'a io" where
  "gets f = (\<lambda>w. (Inr (f w), w))"

fun mapM :: "('a \<Rightarrow> 'b io) \<Rightarrow> 'a list \<Rightarrow> 'b list io" where
  "mapM f [] = ret []"
| "mapM f (x # xs) = bind (f x) (\<lambda>y. bind (mapM f xs) (\<lambda>ys. ret (y # ys)))"

fun forEach :: "('a \<Rightarrow> unit io) \<Rightarrow> 'a list \<Rightarrow> unit io" where
  "forEach f [] = ret ()"
| "forEach f (x # xs) = bind (f x) (\<lambda>_. forEach f xs)"

text \<open>The generator: \<^verbatim>\<open>crypto.randomBytes\<close>, \<^verbatim>\<open>uuidv4()\<close>, \<^verbatim>\<open>crypto.randomUUID()\<close>.\<close>

definition fresh :: "nat io" where
  "fresh = (\<lambda>w. (Inr (rng w), w\<lparr>rng := Suc (rng w)\<rparr>))"

definition uuid_of :: "nat \<Rightarrow> string" where
  "uuid_of n = ''uuid-'' @ replicate n (CHR ''i'')"

definition uuidv4 :: "string io" where
  "uuidv4 = bind fresh (\<lambda>n. ret (uuid_of n))"

subsection \<open>oauth-encryption\<close>

text \<open>
  \<^verbatim>\<open>getEncryptionKey\<close> returns the key of the key file when it exists (a file of
  another length than 32 bytes counts as none), and otherwise generates a key and writes
  the file.
\<close>

definition getEncryptionKey :: "key io" where
  "getEncryptionKey =
     (\<lambda>w. case keyFile w of
             Some k \<Rightarrow> (Inr k, w)
           | None \<Rightarrow> (Inr (rng w), w\<lparr>keyFile := Some (rng w), rng := Suc (rng w)\<rparr>))"

definition encryptOAuthData :: "str \<Rightarrow> str io" where
  "encryptOAuthData plaintext =
     (if \<not> nonempty plaintext then ret (Plain [])
      else bind getEncryptionKey (\<lambda>k. bind fresh (\<lambda>iv. ret (Sealed k iv plaintext))))"

definition decryptOAuthData :: "str \<Rightarrow> str io" where
  "decryptOAuthData encryptedData =
     (if \<not> nonempty encryptedData then ret (Plain [])
      else bind getEncryptionKey (\<lambda>k.
             case encryptedData of
               Sealed k' iv p \<Rightarrow>
                 if k' = k then ret p else throw (Error ''Failed to decrypt OAuth data'')
             | Plain s \<Rightarrow> throw (Error ''Failed to decrypt OAuth data'')))"

text \<open>An optional field: \<^verbatim>\<open>x ? f(x) : undefined\<close>.\<close>

definition whenPresent :: "(str \<Rightarrow> str io) \<Rightarrow> str option \<Rightarrow> str option io" where
  "whenPresent f x =
     (case x of
        None \<Rightarrow> ret None
      | Some s \<Rightarrow> if nonempty s then bind (f s) (\<lambda>y. ret (Some y)) else ret None)"

text \<open>
  \<^verbatim>\<open>encryptOAuthConfig\<close> and \<^verbatim>\<open>decryptOAuthConfig\<close> on a configuration: of the
  sensitive fields only \<^verbatim>\<open>clientSecret\<close> occurs. A falsy field is left as it is, and
  decryption keeps the stored value when it fails.
\<close>

definition encryptOAuthConfig :: "OAuthConfig \<Rightarrow> OAuthConfig io" where
  "encryptOAuthConfig config =
     (if present (clientSecret config)
      then bind (encryptOAuthData (the (clientSecret config)))
             (\<lambda>c. ret (config\<lparr>clientSecret := Some c\<rparr>))
      else ret config)"

definition decryptOAuthConfig :: "OAuthConfig \<Rightarrow> OAuthConfig io" where
  "decryptOAuthConfig config =
     (if present (clientSecret config)
      then tryCatch
             (bind (decryptOAuthData (the (clientSecret config)))
                (\<lambda>c. ret (config\<lparr>clientSecret := Some c\<rparr>)))
             (\<lambda>e. ret config)
      else ret config)"

text \<open>The constructor of \<^verbatim>\<open>EncryptionUtil\<close> calls \<^verbatim>\<open>getEncryptionKey()\<close>.\<close>

definition newEncryptionUtil :: "unit io" where
  "newEncryptionUtil = bind getEncryptionKey (\<lambda>k. ret ())"

subsection \<open>ServerOAuthRepository\<close>

definition orElse :: "'a option \<Rightarrow> 'a \<Rightarrow> 'a" where
  "orElse x d = (case x of Some v \<Rightarrow> v | None \<Rightarrow> d)"

text \<open>\<^verbatim>\<open>x || d\<close> on an optional timestamp: 0 is falsy.\<close>

definition timeOr :: "int option \<Rightarrow> int \<Rightarrow> int" where
  "timeOr x d = (case x of Some v \<Rightarrow> if v = 0 then d else v | None \<Rightarrow> d)"

definition idOr :: "string option \<Rightarrow> string io \<Rightarrow> string io" where
  "idOr x gen = (case x of Some v \<Rightarrow> if v = [] then gen else ret v | None \<Rightarrow> gen)"

definition mapRowToConfig :: "OAuthConfig \<Rightarrow> OAuthConfig io" where
  "mapRowToConfig row = decryptOAuthConfig row"

definition getConfigByServerId :: "string \<Rightarrow> OAuthConfig option io" where
  "getConfigByServerId serverId =
     bind (gets server_oauth_configs) (\<lambda>rows.
       case find (\<lambda>r. cfg_serverId r = serverId) rows of
         None \<Rightarrow> ret None
       | Some row \<Rightarrow> bind (mapRowToConfig row) (\<lambda>c. ret (Some c)))"

text \<open>
  \<^verbatim>\<open>INSERT OR REPLACE\<close>: the rows in conflict with the new one (same primary key, or
  same \<^verbatim>\<open>server_id\<close>, which is UNIQUE) are deleted and the new row is added.
\<close>

definition saveConfig :: "int \<Rightarrow> OAuthConfig \<Rightarrow> OAuthConfig option io" where
  "saveConfig now config =
     bind (idOr (cfg_id config) uuidv4) (\<lambda>id.
     bind (encryptOAuthConfig
             (config\<lparr>cfg_id := Some id,
                     cfg_createdAt := Some (timeOr (cfg_createdAt config) now),
                     cfg_updatedAt := Some now\<rparr>)) (\<lambda>row.
     bind (modify (\<lambda>w. w\<lparr>server_oauth_configs :=
                   filter (\<lambda>r. cfg_id r \<noteq> Some id \<and> cfg_serverId r \<noteq> cfg_serverId config)
                     (server_oauth_configs w) @ [row]\<rparr>)) (\<lambda>_.
     getConfigByServerId (cfg_serverId config))))"

text \<open>\<^verbatim>\<open>ORDER BY created_at DESC\<close>.\<close>

definition getAllConfigs :: "OAuthConfig list io" where
  "getAllConfigs =
     bind (gets server_oauth_configs) (\<lambda>rows.
       mapM mapRowToConfig (sort_key (\<lambda>r. - orElse (cfg_createdAt r) 0) rows))"

definition mapRowToToken :: "OAuthToken \<Rightarrow> OAuthToken io" where
  "mapRowToToken row =
     bind (decryptOAuthData (accessToken row)) (\<lambda>a.
     bind (whenPresent decryptOAuthData (refreshToken row)) (\<lambda>r.
     bind (whenPresent decryptOAuthData (idToken row)) (\<lambda>i.
     ret (row\<lparr>accessToken := a, refreshToken := r, idToken := i\<rparr>))))"

definition getTokenByServerId :: "string \<Rightarrow> OAuthToken option io" where
  "getTokenByServerId serverId =
     bind (gets server_oauth_tokens) (\<lambda>rows.
       case find (\<lambda>r. tok_serverId r = serverId) rows of
         None \<Rightarrow> ret None
       | Some row \<Rightarrow> bind (mapRowToToken row) (\<lambda>t. ret (Some t)))"

definition saveToken :: "int \<Rightarrow> OAuthToken \<Rightarrow> OAuthToken option io" where
  "saveToken now token =
     bind (idOr (tok_id token) uuidv4) (\<lambda>id.
     bind (encryptOAuthData (accessToken token)) (\<lambda>a.
     bind (whenPresent encryptOAuthData (refreshToken token)) (\<lambda>r.
     bind (whenPresent encryptOAuthData (idToken token)) (\<lambda>i.
     bind (modify (\<lambda>w. w\<lparr>server_oauth_tokens :=
                   filter (\<lambda>r. tok_id r \<noteq> Some id \<and> tok_serverId r \<noteq> tok_serverId token)
                     (server_oauth_tokens w)
                   @ [token\<lparr>tok_id := Some id, accessToken := a, refreshToken := r,
                             idToken := i,
                             refreshCount := Some (orElse (refreshCount token) 0),
                             tok_createdAt := Some (timeOr (tok_createdAt token) now),
                             tok_updatedAt := Some now\<rparr>]\<rparr>)) (\<lambda>_.
     getTokenByServerId (tok_serverId token))))))"

definition updateTokenLastUsed :: "int \<Rightarrow> string \<Rightarrow> unit io" where
  "updateTokenLastUsed now serverId =
     modify (\<lambda>w. w\<lparr>server_oauth_tokens :=
       map (\<lambda>r. if tok_serverId r = serverId
                 then r\<lparr>lastUsed := Some now, tok_updatedAt := Some now\<rparr> else r)
         (server_oauth_tokens w)\<rparr>)"

definition incrementRefreshCount :: "int \<Rightarrow> string \<Rightarrow> unit io" where
  "incrementRefreshCount now serverId =
     modify (\<lambda>w. w\<lparr>server_oauth_tokens :=
       map (\<lambda>r. if tok_serverId r = serverId
                 then r\<lparr>refreshCount := map_option Suc (refreshCount r),
                        tok_updatedAt := Some now\<rparr> else r)
         (server_oauth_tokens w)\<rparr>)"

definition deleteToken :: "string \<Rightarrow> bool io" where
  "deleteToken serverId =
     bind (gets server_oauth_tokens) (\<lambda>rows.
     bind (modify (\<lambda>w. w\<lparr>server_oauth_tokens :=
                   filter (\<lambda>r. tok_serverId r \<noteq> serverId) rows\<rparr>)) (\<lambda>_.
     ret (list_ex (\<lambda>r. tok_serverId r = serverId) rows)))"

definition getAllTokens :: "OAuthToken list io" where
  "getAllTokens = bind (gets server_oauth_tokens) (mapM mapRowToToken)"

section \<open>OAuthSecurityService (oauth-security)\<close>

text \<open>
  \<^verbatim>\<open>logSecurityEvent\<close>: the entry gets a fresh id and the current time, is pushed to the
  memory log and appended to the audit file; beyond 10000 entries the memory log keeps
  its last 5000.
\<close>

definition logSecurityEvent ::
  "int \<Rightarrow> OAuthSecurityEvent \<Rightarrow> severity \<Rightarrow> string option \<Rightarrow> (string \<times> json) list \<Rightarrow> unit io" where
  "logSecurityEvent now ev sev sid ds =
     bind uuidv4 (\<lambda>id.
     modify (\<lambda>w.
       let entry = \<lparr>log_id = id, log_timestamp = now, eventType = ev, log_severity = sev,
                    log_serverId = sid, details = ds\<rparr>;
           logs = auditLogs w @ [entry]
       in w\<lparr>auditLogs := (if length logs > 10000 then drop (length logs - 5000) logs else logs),
            auditLogFile := auditLogFile w @ [entry]\<rparr>))"

definition message :: "error \<Rightarrow> string" where
  "message e = (case e of Error m \<Rightarrow> m)"

text \<open>
  \<^verbatim>\<open>rotateEncryptionKeys\<close>. The new key is drawn and not used again; the loop body
  replaces \<^verbatim>\<open>this.encryptionUtil\<close> by \<^verbatim>\<open>new EncryptionUtil()\<close>; every exception is
  caught and logged.
\<close>

definition rotateToken :: "int \<Rightarrow> OAuthToken \<Rightarrow> unit io" where
  "rotateToken now token =
     (if nonempty (accessToken token) then
        bind (decryptOAuthData (accessToken token)) (\<lambda>decrypted.
        bind newEncryptionUtil (\<lambda>_.
        bind (encryptOAuthData decrypted) (\<lambda>reEncrypted.
        bind (whenPresent (\<lambda>r. bind (decryptOAuthData r) encryptOAuthData)
                (refreshToken token)) (\<lambda>rt.
        bind (saveToken now (token\<lparr>accessToken := reEncrypted, refreshToken := rt\<rparr>))
          (\<lambda>_. ret ())))))
      else ret ())"

definition rotateEncryptionKeys :: "int \<Rightarrow> unit io" where
  "rotateEncryptionKeys now =
     tryCatch
       (bind fresh (\<lambda>newKey.
        bind (gets (\<lambda>w. keyVersion (keyRotationConfig w) + 1)) (\<lambda>newKeyVersion.
        bind getAllConfigs (\<lambda>allConfigs.
        bind getAllTokens (\<lambda>allTokens.
        bind (forEach (rotateToken now) allTokens) (\<lambda>_.
        bind (modify (\<lambda>w. w\<lparr>keyRotationConfig :=
                (keyRotationConfig w)
                  \<lparr>keyVersion := newKeyVersion, lastRotation := now,
                   nextRotation :=
                     now + rotationIntervalDays (keyRotationConfig w) * 24 * 60 * 60 * 1000\<rparr>\<rparr>))
          (\<lambda>_.
        logSecurityEvent now KEY_ROTATED Info None
          [(''oldVersion'', JNum (int newKeyVersion - 1)),
           (''newVersion'', JNum (int newKeyVersion)),
           (''tokensRotated'', JNum (int (length allTokens)))])))))))
       (\<lambda>e. logSecurityEvent now KEY_ROTATED Failure None [(''error'', JStr (message e))])"

section \<open>OAuthFlowService and TokenManagerService (oauth-flow, token-manager)\<close>

text \<open>
  The token endpoint is a parameter: \<open>endpoint k\<close> is the outcome of the \<open>k\<close>-th request
  sent to it, an error (network failure, a status other than 200, an unreadable body)
  or the token response.
\<close>

record TokenResponse =
  resp_accessToken :: str
  resp_tokenType :: string
  resp_expiresIn :: "int option"
  resp_refreshToken :: "str option"
  resp_scope :: "string option"

type_synonym endpoint = "nat \<Rightarrow> error + TokenResponse"

definition makeTokenRequest :: "endpoint \<Rightarrow> TokenResponse io" where
  "makeTokenRequest ep =
     (\<lambda>w. (case ep (httpExchanges w) of
              Inl e \<Rightarrow> Inl e
            | Inr r \<Rightarrow> Inr r,
            w\<lparr>httpExchanges := Suc (httpExchanges w)\<rparr>))"

text \<open>\<^verbatim>\<open>scope?.split(" ")\<close>.\<close>

fun splitOn :: "char \<Rightarrow> string \<Rightarrow> string \<Rightarrow> string list" where
  "splitOn c acc [] = [rev acc]"
| "splitOn c acc (x # xs) = (if x = c then rev acc # splitOn c [] xs else splitOn c (x # acc) xs)"

definition truthyInt :: "int option \<Rightarrow> bool" where
  "truthyInt x = (case x of None \<Rightarrow> False | Some v \<Rightarrow> v \<noteq> 0)"

text \<open>
  \<^verbatim>\<open>refreshAccessToken\<close>: the request, and what is done with the response, at time
  \<open>now\<close>. The new token object has no id, so \<open>saveToken\<close> draws one.
\<close>

definition handleTokenResponse ::
  "int \<Rightarrow> OAuthConfig \<Rightarrow> str \<Rightarrow> TokenResponse \<Rightarrow> OAuthToken option io" where
  "handleTokenResponse now config rt resp =
     bind (incrementRefreshCount now (cfg_serverId config)) (\<lambda>_.
     saveToken now
       \<lparr>tok_id = None, tok_serverId = cfg_serverId config,
        accessToken = resp_accessToken resp,
        refreshToken = Some (if present (resp_refreshToken resp)
                             then the (resp_refreshToken resp) else rt),
        idToken = None,
        tokenType = resp_tokenType resp,
        expiresAt = (if truthyInt (resp_expiresIn resp)
                     then Some (now + the (resp_expiresIn resp) * 1000) else None),
        tok_scopes = map_option (splitOn (CHR '' '') []) (resp_scope resp),
        issuedAt = Some now, lastUsed = None, refreshCount = None,
        tok_createdAt = None, tok_updatedAt = None\<rparr>)"

definition refreshAccessToken :: "endpoint \<Rightarrow> int \<Rightarrow> OAuthConfig \<Rightarrow> str \<Rightarrow> OAuthToken option io" where
  "refreshAccessToken ep now config rt =
     bind (makeTokenRequest ep) (handleTokenResponse now config rt)"

text \<open>
  The retry loop of \<^verbatim>\<open>performTokenRefresh\<close>: \<open>attempts n\<close> runs the remaining \<open>n\<close>
  attempts, \<open>lastError\<close> being the error of the attempt before. The waits between
  attempts change no state.
\<close>

fun attempts ::
  "nat \<Rightarrow> error option \<Rightarrow> endpoint \<Rightarrow> int \<Rightarrow> OAuthConfig \<Rightarrow> str \<Rightarrow> OAuthToken option io" where
  "attempts 0 lastError ep now config rt =
     throw (case lastError of Some e \<Rightarrow> e
            | None \<Rightarrow> Error ''Token refresh failed after all retries'')"
| "attempts (Suc n) lastError ep now config rt =
     tryCatch (refreshAccessToken ep now config rt)
       (\<lambda>e. attempts n (Some e) ep now config rt)"

definition performTokenRefresh ::
  "endpoint \<Rightarrow> int \<Rightarrow> OAuthConfig \<Rightarrow> OAuthToken \<Rightarrow> OAuthToken option io" where
  "performTokenRefresh ep now config token =
     (if \<not> present (refreshToken token) then throw (Error ''No refresh token available'')
      else attempts MAX_REFRESH_RETRIES None ep now config (the (refreshToken token)))"

definition shouldRefreshToken :: "OAuthToken \<Rightarrow> int \<Rightarrow> bool" where
  "shouldRefreshToken token now =
     (if \<not> truthyInt (expiresAt token) then False
      else the (expiresAt token) \<le> now + DEFAULT_EXPIRY_BUFFER * 1000)"

definition isTokenExpired :: "OAuthToken \<Rightarrow> int \<Rightarrow> bool" where
  "isTokenExpired token now =
     (if \<not> truthyInt (expiresAt token) then False
      else the (expiresAt token) \<le> now)"

definition cancelTokenRefresh :: "string \<Rightarrow> unit io" where
  "cancelTokenRefresh serverId =
     modify (\<lambda>w. w\<lparr>tokenRefreshTimers :=
       filter (\<lambda>(s, t). s \<noteq> serverId) (tokenRefreshTimers w)\<rparr>)"

text \<open>A timer is recorded by the time at which it fires.\<close>

definition scheduleTokenRefresh :: "int \<Rightarrow> string \<Rightarrow> OAuthToken \<Rightarrow> unit io" where
  "scheduleTokenRefresh now serverId token =
     bind (cancelTokenRefresh serverId) (\<lambda>_.
       if \<not> truthyInt (expiresAt token) \<or> \<not> present (refreshToken token) then ret ()
       else
         let refreshTime = the (expiresAt token) - DEFAULT_EXPIRY_BUFFER * 1000;
             delay = max (refreshTime - now) 0
         in if delay > 0
            then modify (\<lambda>w. w\<lparr>tokenRefreshTimers :=
                   (serverId, now + delay) # tokenRefreshTimers w\<rparr>)
            else ret ())"

text \<open>
  \<^verbatim>\<open>TokenManagerService.refreshToken\<close>, run to completion: the promise it stores in
  \<open>refreshPromises\<close> for the time of the refresh is removed in its \<^verbatim>\<open>finally\<close>.
\<close>

definition tryFinally :: "'a io \<Rightarrow> unit io \<Rightarrow> 'a io" where
  "tryFinally m cleanup =
     (\<lambda>w. case m w of (r, w') \<Rightarrow> (case cleanup w' of (Inl e, w'') \<Rightarrow> (Inl e, w'')
                                  | (Inr u, w'') \<Rightarrow> (r, w'')))"

definition refreshToken_tm ::
  "endpoint \<Rightarrow> int \<Rightarrow> OAuthConfig \<Rightarrow> OAuthToken \<Rightarrow> OAuthToken option io" where
  "refreshToken_tm ep now config token =
     tryFinally
       (bind (performTokenRefresh ep now config token) (\<lambda>refreshed.
          case refreshed of
            Some t \<Rightarrow>
              if truthyInt (expiresAt t)
              then bind (scheduleTokenRefresh now (cfg_serverId config) t) (\<lambda>_. ret refreshed)
              else ret refreshed
          | None \<Rightarrow> throw (Error ''Cannot read properties of null'')))
       (modify (\<lambda>w. w\<lparr>refreshPromises :=
          filter (\<lambda>(s, p). s \<noteq> cfg_serverId config) (refreshPromises w)\<rparr>))"

text \<open>
  \<^verbatim>\<open>getValidToken\<close>: \<open>now\<close> is the time of the call and \<open>later\<close> the time at which the
  refresh settles.
\<close>

definition getValidToken :: "endpoint \<Rightarrow> int \<Rightarrow> int \<Rightarrow> string \<Rightarrow> str option io" where
  "getValidToken ep now later serverId =
     bind (getTokenByServerId serverId) (\<lambda>found.
       case found of
         None \<Rightarrow> ret None
       | Some token \<Rightarrow>
           if shouldRefreshToken token now then
             bind (gets (\<lambda>w. map_of (refreshPromises w) serverId)) (\<lambda>existingRefresh.
               case existingRefresh of
                 Some (Inr refreshed) \<Rightarrow> ret (Some (accessToken refreshed))
               | Some (Inl e) \<Rightarrow> throw e
               | None \<Rightarrow>
                   bind (getConfigByServerId serverId) (\<lambda>config.
                     if config = None \<or> \<not> present (refreshToken token) then ret None
                     else
                       tryCatch
                         (bind (refreshToken_tm ep later (the config) token) (\<lambda>refreshed.
                            ret (map_option accessToken refreshed)))
                         (\<lambda>e. if \<not> isTokenExpired token later
                               then ret (Some (accessToken token)) else ret None)))
           else
             bind (updateTokenLastUsed now serverId) (\<lambda>_. ret (Some (accessToken token))))"

section \<open>OAuthBackupService (oauth-backup)\<close>

record BackupOptions =
  includeTokens :: bool
  opt_encrypt :: bool
  opt_password :: "string option"
  outputPath :: "string option"

record RestoreOptions =
  overwrite :: bool
  restore_password :: "string option"
  validateChecksum :: bool

definition calculateChecksum :: "OAuthBackup \<Rightarrow> digest" where
  "calculateChecksum backup = Sha256 (bk_configs backup) (bk_tokens backup)"

text \<open>\<^verbatim>\<open>encryptBackup\<close> draws the salt and the iv; \<^verbatim>\<open>decryptBackup\<close> fails on another password.\<close>

definition encryptBackup :: "OAuthBackup \<Rightarrow> string \<Rightarrow> file_data io" where
  "encryptBackup backup password =
     bind fresh (\<lambda>salt. bind fresh (\<lambda>iv. ret (PasswordSealed password salt iv backup)))"

definition decryptBackup :: "file_data \<Rightarrow> string \<Rightarrow> OAuthBackup io" where
  "decryptBackup encryptedData password =
     (case encryptedData of
        PasswordSealed pw salt iv backup \<Rightarrow>
          if pw = password then ret backup
          else throw (Error ''Unsupported state or unable to authenticate data'')
      | JsonText backup \<Rightarrow> throw (Error ''Unsupported state or unable to authenticate data''))"

text \<open>\<^verbatim>\<open>String.prototype.includes\<close>.\<close>

fun includes_str :: "string \<Rightarrow> string \<Rightarrow> bool" where
  "includes_str [] pat = (pat = [])"
| "includes_str (x # xs) pat = (take (length pat) (x # xs) = pat \<or> includes_str xs pat)"

definition writeFileSync :: "string \<Rightarrow> file_data \<Rightarrow> unit io" where
  "writeFileSync path d =
     modify (\<lambda>w. w\<lparr>files := (path, d) # filter (\<lambda>(p, x). p \<noteq> path) (files w)\<rparr>)"

definition backupToken :: "bool \<Rightarrow> OAuthToken \<Rightarrow> OAuthToken io" where
  "backupToken enc token =
     bind (if enc then decryptOAuthData (accessToken token) else ret (Plain ''[REDACTED]''))
       (\<lambda>a.
     bind (if present (refreshToken token) \<and> enc
           then bind (decryptOAuthData (the (refreshToken token))) (\<lambda>r. ret (Some r))
           else ret None) (\<lambda>r.
     ret (token\<lparr>accessToken := a, refreshToken := r\<rparr>)))"

text \<open>
  \<^verbatim>\<open>createBackup\<close>. \<open>dialogPath\<close> is the answer of the save dialog, asked when the
  options name no output path (\<open>None\<close>: the user cancelled).
\<close>

definition createBackup :: "int \<Rightarrow> string option \<Rightarrow> BackupOptions \<Rightarrow> string io" where
  "createBackup now dialogPath options =
     bind getAllConfigs (\<lambda>configs.
     bind (if includeTokens options then getAllTokens else ret []) (\<lambda>tokens.
     bind (mapM (backupToken (opt_encrypt options)) tokens) (\<lambda>btokens.
     let bconfigs = map (\<lambda>c. c\<lparr>clientSecret :=
                       (if opt_encrypt options then clientSecret c else None)\<rparr>) configs;
         backup0 = \<lparr>metadata = \<lparr>bk_version = ''1.0.0'', bk_createdAt = now,
                               totalConfigs = length configs, totalTokens = length tokens,
                               checksum = NoDigest\<rparr>,
                    bk_configs = bconfigs, bk_tokens = btokens,
                    encrypted = opt_encrypt options,
                    encryptionMethod =
                      (if opt_encrypt options then Some ''AES-256-GCM'' else None)\<rparr>;
         backup = backup0\<lparr>metadata := (metadata backup0)
                            \<lparr>checksum := calculateChecksum backup0\<rparr>\<rparr>
     in
     bind (if opt_encrypt options \<and> truthy (opt_password options)
           then encryptBackup backup (the (opt_password options))
           else ret (JsonText backup)) (\<lambda>backupData.
     bind (if truthy (outputPath options) then ret (the (outputPath options))
           else if truthy dialogPath then ret (the dialogPath)
           else throw (Error ''Backup canceled by user'')) (\<lambda>path.
     bind (writeFileSync path backupData) (\<lambda>_.
     bind uuidv4 (\<lambda>hid.
     bind (modify (\<lambda>w. w\<lparr>backupHistory := backupHistory w @
                   [\<lparr>bh_id = hid, bh_timestamp = now, bh_path = path,
                     bh_metadata = metadata backup,
                     automatic = (if truthy (outputPath options)
                                  then includes_str (the (outputPath options)) ''auto-backup''
                                  else True)\<rparr>]\<rparr>))
       (\<lambda>_.
     bind (logSecurityEvent now CONFIGURATION_CHANGED Info None
             [(''action'', JStr ''backup_created''), (''path'', JStr path),
              (''configs'', JNum (int (length configs))),
              (''tokens'', JNum (int (length tokens)))]) (\<lambda>_.
     ret path)))))))))"

text \<open>
  \<^verbatim>\<open>cleanupOldBackups\<close>: the automatic backups beyond the newest \<open>keepCount\<close> are
  unlinked and leave the history.
\<close>

definition cleanupOldBackups :: "nat \<Rightarrow> unit io" where
  "cleanupOldBackups keepCount =
     modify (\<lambda>w.
       let autoBackups = sort_key (\<lambda>b. - bh_timestamp b) (filter automatic (backupHistory w));
           toDelete = drop keepCount autoBackups
       in if length autoBackups > keepCount
          then w\<lparr>files := filter (\<lambda>(p, x). p \<notin> set (map bh_path toDelete)) (files w),
                 backupHistory :=
                   filter (\<lambda>b. bh_id b \<notin> set (map bh_id toDelete)) (backupHistory w)\<rparr>
          else w)"

text \<open>
  \<^verbatim>\<open>createAutomaticBackup\<close>: \<open>stamp\<close> is the ISO time of the call with \<open>:\<close> replaced
  and the milliseconds cut off. Every exception is caught.
\<close>

definition backupDir :: string where
  "backupDir = ''userData/oauth-backups/''"

definition createAutomaticBackup :: "int \<Rightarrow> string \<Rightarrow> unit io" where
  "createAutomaticBackup now stamp =
     tryCatch
       (bind (createBackup now None
                \<lparr>includeTokens = True, opt_encrypt = True, opt_password = None,
                 outputPath = Some (backupDir @ ''auto-backup-'' @ stamp @ ''.json'')\<rparr>)
          (\<lambda>_. cleanupOldBackups 7))
       (\<lambda>e. ret ())"

text \<open>The handler of \<^verbatim>\<open>"oauth:createBackup"\<close> (oauth-handler), after the save dialog.\<close>

definition ipc_oauth_createBackup :: "int \<Rightarrow> string option \<Rightarrow> string option io" where
  "ipc_oauth_createBackup now dialogPath =
     (if truthy dialogPath
      then bind (createBackup now None
                   \<lparr>includeTokens = True, opt_encrypt = True, opt_password = None,
                    outputPath = dialogPath\<rparr>) (\<lambda>p. ret (Some p))
      else ret None)"

definition readBackupFile :: "string \<Rightarrow> file_data io" where
  "readBackupFile path =
     bind (gets (\<lambda>w. map_of (files w) path)) (\<lambda>d.
       case d of None \<Rightarrow> throw (Error ''ENOENT: no such file or directory'')
               | Some x \<Rightarrow> ret x)"

definition restoreConfig :: "int \<Rightarrow> bool \<Rightarrow> OAuthConfig \<Rightarrow> nat io" where
  "restoreConfig now ow config =
     bind (if ow then ret True
           else bind (getConfigByServerId (cfg_serverId config)) (\<lambda>c. ret (c = None))) (\<lambda>go.
       if go then bind (saveConfig now config) (\<lambda>_. ret 1) else ret 0)"

text \<open>The token is encrypted here and once more in \<open>saveToken\<close>.\<close>

definition restoreToken :: "int \<Rightarrow> bool \<Rightarrow> OAuthToken \<Rightarrow> nat io" where
  "restoreToken now ow token =
     bind (if ow then ret True
           else bind (getTokenByServerId (tok_serverId token)) (\<lambda>t. ret (t = None))) (\<lambda>go.
       if go then
         bind (encryptOAuthData (accessToken token)) (\<lambda>a.
         bind (whenPresent encryptOAuthData (refreshToken token)) (\<lambda>r.
         bind (saveToken now (token\<lparr>accessToken := a, refreshToken := r\<rparr>)) (\<lambda>_. ret 1)))
       else ret 0)"

definition restoreBackup :: "int \<Rightarrow> string \<Rightarrow> RestoreOptions \<Rightarrow> (nat \<times> nat) io" where
  "restoreBackup now backupPath options =
     tryCatch
       (bind (readBackupFile backupPath) (\<lambda>backupData.
        bind (case backupData of
                JsonText b \<Rightarrow> ret b
              | PasswordSealed pw salt iv b \<Rightarrow>
                  if truthy (restore_password options)
                  then decryptBackup backupData (the (restore_password options))
                  else throw (Error ''Backup is encrypted but no password provided'')) (\<lambda>backup.
        bind (if validateChecksum options
                 \<and> calculateChecksum backup \<noteq> checksum (metadata backup)
              then throw (Error ''Backup checksum validation failed'') else ret ()) (\<lambda>_.
        bind (mapM (restoreConfig now (overwrite options)) (bk_configs backup)) (\<lambda>cs.
        bind (mapM (restoreToken now (overwrite options)) (bk_tokens backup)) (\<lambda>ts.
        bind (logSecurityEvent now CONFIGURATION_CHANGED Info None
                [(''action'', JStr ''backup_restored''), (''path'', JStr backupPath),
                 (''restoredConfigs'', JNum (int (sum_list cs))),
                 (''restoredTokens'', JNum (int (sum_list ts)))]) (\<lambda>_.
        ret (sum_list cs, sum_list ts))))))))
       (\<lambda>e. bind (logSecurityEvent now CONFIGURATION_CHANGED Failure None
                     [(''action'', JStr ''backup_restore_failed''),
                      (''error'', JStr (message e))]) (\<lambda>_. throw e))"

section \<open>Scenarios\<close>

text \<open>
  A fresh installation, then server \<open>s1\<close> configured with a client secret, then a token
  stored for it that expires at time 10000.
\<close>

definition freshInstall :: world where
  "freshInstall =
     \<lparr>keyFile = None, rng = 0, server_oauth_configs = [], server_oauth_tokens = [],
      files = [], backupHistory = [], auditLogs = [], auditLogFile = [],
      keyRotationConfig = \<lparr>rotationIntervalDays = 90, keyVersion = 1, lastRotation = 0,
                            nextRotation = 7776000000\<rparr>,
      refreshPromises = [], tokenRefreshTimers = [], httpExchanges = 0\<rparr>"

definition configS1 :: OAuthConfig where
  "configS1 =
     \<lparr>cfg_id = None, cfg_serverId = ''s1'', cfg_clientId = ''client-1'',
      clientSecret = Some (Plain ''s3cret''), cfg_scopes = [''read''],
      tokenEndpoint = Some ''https://auth.example/token'',
      cfg_createdAt = None, cfg_updatedAt = None\<rparr>"

definition tokenS1 :: OAuthToken where
  "tokenS1 =
     \<lparr>tok_id = None, tok_serverId = ''s1'', accessToken = Plain ''tokA'',
      refreshToken = Some (Plain ''refA''), idToken = Some (Plain ''idA''),
      tokenType = ''Bearer'', expiresAt = Some 10000, tok_scopes = Some [''read''],
      issuedAt = Some 2000, lastUsed = None, refreshCount = None,
      tok_createdAt = None, tok_updatedAt = None\<rparr>"

definition configuredWorld :: world where
  "configuredWorld = snd (saveConfig 1000 configS1 freshInstall)"

definition authenticatedWorld :: world where
  "authenticatedWorld = snd (saveToken 2000 tokenS1 configuredWorld)"

text \<open>A token endpoint that answers every request with \<^verbatim>\<open>invalid_grant\<close>.\<close>

definition invalidGrant :: endpoint where
  "invalidGrant = (\<lambda>k. Inl (Error ''invalid_grant''))"

text \<open>A backup file as \<open>createBackup\<close> lays it out, holding the token of \<open>s1\<close> in the clear.\<close>

definition plainBackup :: OAuthBackup where
  "plainBackup =
     \<lparr>metadata = \<lparr>bk_version = ''1.0.0'', bk_createdAt = 3000, totalConfigs = 0,
                  totalTokens = 1, checksum = Sha256 [] [tokenS1\<lparr>tok_id := Some ''uuid-ii''\<rparr>]\<rparr>,
      bk_configs = [], bk_tokens = [tokenS1\<lparr>tok_id := Some ''uuid-ii''\<rparr>],
      encrypted = True, encryptionMethod = Some ''AES-256-GCM''\<rparr>"

definition restoreWorld :: world where
  "restoreWorld = freshInstall\<lparr>files := [(''b.json'', JsonText plainBackup)]\<rparr>"

definition restoredWorld :: world where
  "restoredWorld =
     snd (restoreBackup 6000 ''b.json''
            \<lparr>overwrite = True, restore_password = None, validateChecksum = True\<rparr>
            restoreWorld)"

text \<open>
  What a reader of a file sees of the secrets: the client secrets and the access, refresh
  and id tokens of a JSON backup, as they stand in the text; nothing of a
  password-sealed one.
\<close>

definition secretsOfBackup :: "OAuthBackup \<Rightarrow> str list" where
  "secretsOfBackup b =
     concat (map (\<lambda>c. case clientSecret c of Some s \<Rightarrow> [s] | None \<Rightarrow> []) (bk_configs b))
     @ concat (map (\<lambda>t. accessToken t
                       # (case refreshToken t of Some s \<Rightarrow> [s] | None \<Rightarrow> [])
                       @ (case idToken t of Some s \<Rightarrow> [s] | None \<Rightarrow> []))
                 (bk_tokens b))"

definition readableSecrets :: "file_data \<Rightarrow> str list" where
  "readableSecrets d =
     (case d of JsonText b \<Rightarrow> secretsOfBackup b | PasswordSealed pw salt iv b \<Rightarrow> [])"

definition writtenSecrets :: "world \<Rightarrow> str list" where
  "writtenSecrets w = concat (map (\<lambda>(p, d). readableSecrets d) (files w))"

definition passwordBackupOptions :: BackupOptions where
  "passwordBackupOptions =
     \<lparr>includeTokens = True, opt_encrypt = True, opt_password = Some ''pw'',
      outputPath = Some ''b.json''\<rparr>"

definition plainExportOptions :: BackupOptions where
  "plainExportOptions =
     \<lparr>includeTokens = True, opt_encrypt = False, opt_password = None,
      outputPath = Some ''b.json''\<rparr>"

text \<open>The access token a reader of the repository gets for a server.\<close>

definition storedAccessToken :: "string \<Rightarrow> world \<Rightarrow> (error + str option)" where
  "storedAccessToken serverId w =
     (case fst (getTokenByServerId serverId w) of
        Inl e \<Rightarrow> Inl e
      | Inr t \<Rightarrow> Inr (map_option accessToken t))"

text \<open>The token and the configuration of \<open>s1\<close> as the repository reads them back.\<close>

definition storedTokenS1 :: OAuthToken where
  "storedTokenS1 =
     tokenS1\<lparr>tok_id := Some ''uuid-iii'', refreshCount := Some 0,
             tok_createdAt := Some 2000, tok_updatedAt := Some 2000\<rparr>"

definition storedConfigS1 :: OAuthConfig where
  "storedConfigS1 =
     configS1\<lparr>cfg_id := Some ''uuid-'', cfg_createdAt := Some 1000,
              cfg_updatedAt := Some 1000\<rparr>"

text \<open>A password-sealed backup file and restore options with another password.\<close>

definition sealedWorld :: world where
  "sealedWorld = freshInstall\<lparr>files := [(''b.json'', PasswordSealed ''pw'' 7 8 plainBackup)]\<rparr>"

definition wrongPasswordOptions :: RestoreOptions where
  "wrongPasswordOptions =
     \<lparr>overwrite = True, restore_password = Some ''other'', validateChecksum = True\<rparr>"

section \<open>Properties of computations\<close>

text \<open>A computation that never replaces an existing key file.\<close>

definition keepsKey :: "'a io \<Rightarrow> bool" where
  "keepsKey m = (\<forall>w k. keyFile w = Some k \<longrightarrow> keyFile (snd (m w)) = Some k)"


text \<open>A computation that sends no request to the token endpoint.\<close>

definition keepsRequests :: "'a io \<Rightarrow> bool" where
  "keepsRequests m = (\<forall>w. httpExchanges (snd (m w)) = httpExchanges w)"
section \<open>Server Manager (server-manager)\<close>

datatype server_status = Stopped | Starting | Running | Stopping | Errored

record MCPServer =
  srv_id :: string
  srv_name :: string
  disabled :: bool
  autoStart :: bool
  status :: server_status
  errorMessage :: "string option"

text \<open>
  A connected MCP client, the transport handle kept in the pool, is a number. The four
  maps of the manager are association lists in insertion order, with \<^verbatim>\<open>Map.set\<close> as
  \<open>AList.update\<close> and \<^verbatim>\<open>Map.delete\<close> as \<open>AList.delete\<close>. \<open>pendingStarts\<close> holds, as
  \<open>(id, name)\<close>, the calls of \<open>startServer\<close> that wait for their connection.
\<close>

type_synonym client = nat

record ServerManager =
  servers :: "(string \<times> MCPServer) list"
  clients :: "(string \<times> client) list"
  serverNameToIdMap :: "(string \<times> string) list"
  serverStatusMap :: "(string \<times> bool) list"
  pendingStarts :: "(string \<times> string) list"

datatype connect_result = Success client | ConnectError string

datatype 'a outcome = Returned 'a | Threw string | Awaiting

text \<open>
  An assignment to a field of the server object that \<^verbatim>\<open>this.servers.get(id)\<close> returned:
  it is seen in the map as long as the object is in it.
\<close>

definition setServer :: "string \<Rightarrow> (MCPServer \<Rightarrow> MCPServer) \<Rightarrow> ServerManager \<Rightarrow> ServerManager" where
  "setServer sid f m =
     m\<lparr>servers := map (\<lambda>(k, s). (k, if k = sid then f s else s)) (servers m)\<rparr>"

text \<open>
  \<^verbatim>\<open>loadServersFromDatabase\<close>: every server starts as stopped. The automatic starts it
  issues are calls of \<open>startServer\<close>.
\<close>

definition loaded :: "MCPServer list \<Rightarrow> ServerManager" where
  "loaded dbServers =
     \<lparr>servers = fold (\<lambda>s. AList.update (srv_id s) (s\<lparr>status := Stopped\<rparr>)) dbServers [],
      clients = [],
      serverNameToIdMap = fold (\<lambda>s. AList.update (srv_name s) (srv_id s)) dbServers [],
      serverStatusMap = [],
      pendingStarts = []\<rparr>"

text \<open>
  \<^verbatim>\<open>startServer\<close> up to its \<^verbatim>\<open>await\<close> of the connection, and from the connection
  result on. Other calls can run in between.
\<close>

definition startServer_begin :: "ServerManager \<Rightarrow> string \<Rightarrow> bool outcome \<times> ServerManager" where
  "startServer_begin m sid =
     (case map_of (servers m) sid of
        None \<Rightarrow> (Threw ''Server not found'', m)
      | Some server \<Rightarrow>
          if disabled server then (Threw ''Server is disabled'', m)
          else if map_of (clients m) sid \<noteq> None then (Returned True, m)
          else (Awaiting,
                (setServer sid (\<lambda>s. s\<lparr>status := Starting\<rparr>) m)
                  \<lparr>pendingStarts := pendingStarts m @ [(sid, srv_name server)]\<rparr>))"

definition startServer_finish ::
  "ServerManager \<Rightarrow> string \<Rightarrow> connect_result \<Rightarrow> bool outcome \<times> ServerManager" where
  "startServer_finish m sid result =
     (case find (\<lambda>(k, n). k = sid) (pendingStarts m) of
        None \<Rightarrow> (Awaiting, m)
      | Some (k, name) \<Rightarrow>
          let m1 = m\<lparr>pendingStarts := remove1 (k, name) (pendingStarts m)\<rparr> in
          case result of
            ConnectError e \<Rightarrow>
              (Threw e, setServer sid (\<lambda>s. s\<lparr>status := Errored, errorMessage := Some e\<rparr>) m1)
          | Success c \<Rightarrow>
              (Returned True,
               (setServer sid (\<lambda>s. s\<lparr>status := Running, errorMessage := None\<rparr>)
                  (m1\<lparr>clients := AList.update sid c (clients m1)\<rparr>))
                 \<lparr>serverStatusMap := AList.update name True (serverStatusMap m1)\<rparr>))"

text \<open>
  \<^verbatim>\<open>stopServer\<close>; \<open>closeThrows\<close> says whether logging the request or closing the client
  throws inside the \<^verbatim>\<open>try\<close>.
\<close>

definition stopServer :: "ServerManager \<Rightarrow> string \<Rightarrow> bool \<Rightarrow> bool \<times> ServerManager" where
  "stopServer m sid closeThrows =
     (case map_of (servers m) sid of
        None \<Rightarrow> (False, m)
      | Some server \<Rightarrow>
          (case map_of (clients m) sid of
             None \<Rightarrow> (True, setServer sid (\<lambda>s. s\<lparr>status := Stopped\<rparr>) m)
           | Some client \<Rightarrow>
               let m1 = (setServer sid (\<lambda>s. s\<lparr>status := Stopping\<rparr>) m)
                          \<lparr>serverStatusMap :=
                             AList.update (srv_name server) False (serverStatusMap m)\<rparr>
               in if closeThrows
                  then (False, setServer sid (\<lambda>s. s\<lparr>status := Errored\<rparr>) m1)
                  else (True, setServer sid (\<lambda>s. s\<lparr>status := Stopped\<rparr>)
                                (m1\<lparr>clients := AList.delete sid (clients m1)\<rparr>))))"

text \<open>
  \<^verbatim>\<open>removeServer\<close>; \<open>removed\<close> is the answer of \<^verbatim>\<open>serverService.deleteServer\<close>. The
  update of the tokens touches no state of the manager.
\<close>

definition removeServer ::
  "ServerManager \<Rightarrow> string \<Rightarrow> bool \<Rightarrow> bool \<Rightarrow> bool \<times> ServerManager" where
  "removeServer m sid closeThrows removed =
     (let server = map_of (servers m) sid;
          m1 = (if map_of (clients m) sid \<noteq> None then snd (stopServer m sid closeThrows) else m)
      in case server of
           Some s \<Rightarrow>
             if removed
             then (removed, m1\<lparr>serverNameToIdMap := AList.delete (srv_name s) (serverNameToIdMap m1),
                               servers := AList.delete sid (servers m1)\<rparr>)
             else (removed, m1)
         | None \<Rightarrow> (removed, m1))"

text \<open>\<^verbatim>\<open>clearAllServers\<close>; \<open>failing\<close> lists the servers whose stop throws.\<close>

definition clearAllServers :: "ServerManager \<Rightarrow> string list \<Rightarrow> ServerManager" where
  "clearAllServers m failing =
     (let m1 = fold (\<lambda>sid m'. snd (stopServer m' sid (sid \<in> set failing)))
                 (map fst (clients m)) m
      in m1\<lparr>servers := [], clients := [], serverNameToIdMap := [], serverStatusMap := []\<rparr>)"

text \<open>The states the manager reaches from loading, by any sequence of such steps.\<close>

datatype operation =
    StartBegin string
  | StartFinish string connect_result
  | Stop string bool
  | Remove string bool bool
  | ClearAll "string list"

fun perform :: "operation \<Rightarrow> ServerManager \<Rightarrow> ServerManager" where
  "perform (StartBegin sid) m = snd (startServer_begin m sid)"
| "perform (StartFinish sid r) m = snd (startServer_finish m sid r)"
| "perform (Stop sid closeThrows) m = snd (stopServer m sid closeThrows)"
| "perform (Remove sid closeThrows removed) m = snd (removeServer m sid closeThrows removed)"
| "perform (ClearAll failing) m = clearAllServers m failing"

inductive reachable :: "ServerManager \<Rightarrow> bool" where
  init: "reachable (loaded dbServers)"
| step: "reachable m \<Longrightarrow> reachable (perform op m)"

text \<open>The transports the pool holds for a server.\<close>

definition transports :: "ServerManager \<Rightarrow> string \<Rightarrow> (string \<times> client) list" where
  "transports m sid = filter (\<lambda>(k, c). k = sid) (clients m)"

text \<open>
  What the pool \<open>cs\<close> owes a server entry: a transport if it is running, none if it is
  stopped.
\<close>

definition pooled :: "(string \<times> client) list \<Rightarrow> string \<times> MCPServer \<Rightarrow> bool" where
  "pooled cs x =
     ((status (snd x) = Running \<longrightarrow> fst x \<in> fst ` set cs)
      \<and> (status (snd x) = Stopped \<longrightarrow> fst x \<notin> fst ` set cs))"

definition poolInvariant :: "ServerManager \<Rightarrow> bool" where
  "poolInvariant m =
     (distinct (map fst (clients m)) \<and> list_all (pooled (clients m)) (servers m))"

text \<open>One server \<open>a\<close>: started, then stopped with the close throwing.\<close>

definition serverA :: MCPServer where
  "serverA = \<lparr>srv_id = ''a'', srv_name = ''alpha'', disabled = False, autoStart = False,
              status = Stopped, errorMessage = None\<rparr>"

definition startedA :: ServerManager where
  "startedA = perform (StartFinish ''a'' (Success 1)) (perform (StartBegin ''a'') (loaded [serverA]))"

definition failedStopA :: ServerManager where
  "failedStopA = perform (Stop ''a'' True) startedA"

definition stoppedA :: ServerManager where
  "stoppedA = perform (Stop ''a'' False) startedA"

definition statusOf :: "ServerManager \<Rightarrow> string \<Rightarrow> server_status option" where
  "statusOf m sid = map_option status (map_of (servers m) sid)"

section \<open>Concurrent refreshes on the event loop\<close>





record settled_refresh =
  requestsUsed :: nat
  result :: "error + str"








































section \<open>Theorems\<close>

subsection \<open>Secure random strings\<close>

lemma length_base64url:
  "length (base64url bs) = (4 * length bs + 2) div 3"
  by (induction bs rule: base64url.induct) simp_all

lemma length_randomBytes: "length (randomBytes n rnd) = n"
  by (simp add: randomBytes_def)

lemma base64url_append:
  "length xs mod 3 = 0 \<Longrightarrow> base64url (xs @ ys) = base64url xs @ base64url ys"
  by (induction xs rule: base64url.induct) simp_all

lemma take_randomBytes:
  "m \<le> n \<Longrightarrow> take m (randomBytes n rnd) = randomBytes m rnd"
  by (simp add: randomBytes_def take_map)

lemma generateSecureRandom_quads:
  "generateSecureRandom (4 * k) rnd = base64url (randomBytes (3 * k) rnd)"
proof -
  let ?bs = "randomBytes (4 * k) rnd"
  let ?hd = "randomBytes (3 * k) rnd"
  have "take (3 * k) ?bs = ?hd"
    by (rule take_randomBytes) simp
  then have split: "?bs = ?hd @ drop (3 * k) ?bs"
    using append_take_drop_id [of "3 * k" ?bs] by simp
  have len: "length (base64url ?hd) = 4 * k"
    by (simp add: length_base64url length_randomBytes)
  have "base64url ?bs = base64url ?hd @ base64url (drop (3 * k) ?bs)"
    using base64url_append [of ?hd "drop (3 * k) ?bs"] split
    by (simp add: length_randomBytes)
  then show ?thesis
    using len by (simp add: generateSecureRandom_def)
qed

text \<open>
  C9 (counterexample). On the all-zero entropy source, the 32-character state is not the
  base64url encoding of the 32 random bytes (that encoding has 43 characters), and a
  second source that differs in the last of the 32 bytes gives the same state: the state
  does not encode 32 random bytes.
\<close>

theorem randomToken_not_full_encoding:
  "generateSecureRandom STATE_LENGTH zero_entropy
     \<noteq> base64url (randomBytes STATE_LENGTH zero_entropy)
   \<and> randomBytes STATE_LENGTH zero_entropy \<noteq> randomBytes STATE_LENGTH last_byte_entropy
   \<and> generateSecureRandom STATE_LENGTH zero_entropy
     = generateSecureRandom STATE_LENGTH last_byte_entropy"
  by code_simp

text \<open>
  C9 (amended). \<open>generateSecureRandom n\<close> returns the first \<open>n\<close> characters of the
  base64url encoding of \<open>n\<close> random bytes, a string of exactly \<open>n\<close> characters. The OAuth
  state is the base64url encoding of the first 24 of its 32 random bytes, and the PKCE
  verifier that of the first 48 of its 64 random bytes.
\<close>

theorem randomToken_truncated_encoding:
  "generateSecureRandom n rnd = take n (base64url (randomBytes n rnd))
   \<and> length (generateSecureRandom n rnd) = n
   \<and> generateSecureRandom STATE_LENGTH rnd = base64url (randomBytes 24 rnd)
   \<and> generateSecureRandom VERIFIER_LENGTH rnd = base64url (randomBytes 48 rnd)"
proof -
  have a: "generateSecureRandom n rnd = take n (base64url (randomBytes n rnd))"
    by (simp add: generateSecureRandom_def)
  have b: "length (generateSecureRandom n rnd) = n"
    by (simp add: generateSecureRandom_def length_base64url length_randomBytes)
  have c: "generateSecureRandom STATE_LENGTH rnd = base64url (randomBytes 24 rnd)"
    using generateSecureRandom_quads [of 8 rnd] by (simp add: STATE_LENGTH_def)
  have d: "generateSecureRandom VERIFIER_LENGTH rnd = base64url (randomBytes 48 rnd)"
    using generateSecureRandom_quads [of 16 rnd] by (simp add: VERIFIER_LENGTH_def)
  from a b c d show ?thesis by simp
qed

subsection \<open>Tool preferences\<close>

lemma getServerTool_client_row:
  assumes "truthy c" and "find (clientRow s t c) tbl = Some r"
  shows "getServerTool tbl s t c = Some r"
  using assms by (simp add: getServerTool_def)

lemma getServerTool_global_fallback:
  assumes "find (clientRow s t c) tbl = None"
  shows "getServerTool tbl s t c = find (globalRow s t) tbl"
  using assms by (simp add: getServerTool_def)

lemma getServerTool_none:
  assumes "find (clientRow s t c) tbl = None" and "find (globalRow s t) tbl = None"
  shows "getServerTool tbl s t c = None"
  using assms by (simp add: getServerTool_def)

lemma isToolEnabled_fresh_cache:
  assumes "toolPreferencesCache svc = Map.empty"
  shows "fst (isToolEnabled svc s t c) =
           (case getServerTool (server_tools svc) s t c of
              Some p \<Rightarrow> enabled p | None \<Rightarrow> True)"
  using assms
  by (simp add: isToolEnabled_def getToolPreference_def cacheLookup_def Let_def
           split: option.splits)

lemma setAllEnabled_other_servers:
  "filter (\<lambda>r. tool_serverId r \<noteq> s) (setAllEnabled b tbl now s)
     = filter (\<lambda>r. tool_serverId r \<noteq> s) tbl"
  by (induction tbl) (simp_all add: setAllEnabled_def)

lemma reset_other_servers:
  "filter (\<lambda>r. tool_serverId r \<noteq> s) (snd (deleteServerToolPreferences tbl s))
     = filter (\<lambda>r. tool_serverId r \<noteq> s) tbl"
  by (simp add: deleteServerToolPreferences_def)

text \<open>
  C5 (failing input). After tool \<open>t1\<close> of server \<open>s1\<close> was disabled globally and the
  server's preferences were reset, table \<^verbatim>\<open>server_tools\<close> is empty, so no stored row
  matches the query \<open>(s1, t1)\<close> and the repository resolves it to nothing; yet
  \<open>isToolEnabled\<close> answers \<open>False\<close>, from the cache entry \<open>s1:global\<close> that the reset did
  not delete (it deletes key \<open>s1\<close>).
\<close>

theorem isToolEnabled_stale_after_reset:
  "server_tools staleCacheService = []
   \<and> getServerTool (server_tools staleCacheService) ''s1'' ''t1'' None = None
   \<and> fst (isToolEnabled staleCacheService ''s1'' ''t1'' None) = False"
  by (simp add: staleCacheService_def emptyToolService_def disablePref_def
        resetToolPreferences_def deleteServerToolPreferences_def
        updateToolPreference_def upsertToolPreference_def getServerTool_def
        insertRow_def globalRow_def clientRow_def scopeRow_def updateCache_def
        cacheKey_def orNull_def truthy_def isToolEnabled_def getToolPreference_def
        cacheLookup_def Let_def)

text \<open>
  C6 (failing input). Server \<open>s1\<close> has a disabled global row for \<open>t1\<close> and a disabled
  row of client \<open>c1\<close> for \<open>t2\<close>. Enable-all requested for the global scope enables the
  row of client \<open>c1\<close> as well, disable-all requested for the global scope then disables
  it again, and a reset requested for the scope of client \<open>c2\<close> deletes both rows.
\<close>

theorem bulk_operations_cross_scopes:
  "map enabled (scopeRows (server_tools twoScopeService) ''s1'' (Some ''c1'')) = [False]
   \<and> map enabled
        (scopeRows (server_tools (ipc_tool_enableAll twoScopeService 3000 ''s1'' None))
           ''s1'' (Some ''c1'')) = [True]
   \<and> map enabled
        (scopeRows
           (server_tools
              (ipc_tool_disableAll (ipc_tool_enableAll twoScopeService 3000 ''s1'' None)
                 4000 ''s1'' None))
           ''s1'' (Some ''c1'')) = [False]
   \<and> server_tools (snd (ipc_tool_resetPreferences twoScopeService ''s1'' (Some ''c2''))) = []"
  by (simp add: twoScopeService_def emptyToolService_def disablePref_def
        ipc_tool_enableAll_def ipc_tool_resetPreferences_def enableAllTools_def
        ipc_tool_disableAll_def disableAllTools_def repo_disableAllTools_def
        resetToolPreferences_def deleteServerToolPreferences_def repo_enableAllTools_def
        setAllEnabled_def scopeRows_def
        updateToolPreference_def upsertToolPreference_def getServerTool_def
        insertRow_def globalRow_def clientRow_def scopeRow_def updateCache_def
        cacheKey_def orNull_def truthy_def Let_def)

subsection \<open>Key rotation\<close>

named_theorems keeps

lemma keepsKey_ret [keeps]: "keepsKey (ret x)"
  by (simp add: keepsKey_def ret_def)

lemma keepsKey_throw [keeps]: "keepsKey (throw e)"
  by (simp add: keepsKey_def throw_def)

lemma keepsKey_gets [keeps]: "keepsKey (gets f)"
  by (simp add: keepsKey_def gets_def)

lemma keepsKey_fresh [keeps]: "keepsKey fresh"
  by (simp add: keepsKey_def fresh_def)

lemma keepsKey_getEncryptionKey [keeps]: "keepsKey getEncryptionKey"
  by (simp add: keepsKey_def getEncryptionKey_def)

lemma keepsKey_bind [keeps]:
  assumes "keepsKey m" and "\<And>x. keepsKey (f x)"
  shows "keepsKey (bind m f)"
  using assms unfolding keepsKey_def bind_def
  by (auto split: prod.splits sum.splits) (metis snd_conv)+

lemma keepsKey_tryCatch [keeps]:
  assumes "keepsKey m" and "\<And>e. keepsKey (h e)"
  shows "keepsKey (tryCatch m h)"
  using assms unfolding keepsKey_def tryCatch_def
  by (auto split: prod.splits sum.splits) (metis snd_conv)+

lemma keepsKey_modify:
  assumes "\<And>w. keyFile (f w) = keyFile w"
  shows "keepsKey (modify f)"
  using assms by (simp add: keepsKey_def modify_def)

lemma keepsKey_mapM [keeps]:
  assumes "\<And>x. keepsKey (f x)"
  shows "keepsKey (mapM f xs)"
  by (induction xs) (simp_all add: keeps assms)

lemma keepsKey_forEach [keeps]:
  assumes "\<And>x. keepsKey (f x)"
  shows "keepsKey (forEach f xs)"
  by (induction xs) (simp_all add: keeps assms)

lemma keepsKey_if [keeps]:
  assumes "keepsKey a" and "keepsKey b"
  shows "keepsKey (if c then a else b)"
  using assms by simp

lemma keepsKey_uuidv4 [keeps]: "keepsKey uuidv4"
  unfolding uuidv4_def by (intro keeps)

lemma keepsKey_encryptOAuthData [keeps]: "keepsKey (encryptOAuthData p)"
  unfolding encryptOAuthData_def by (intro keeps)

lemma keepsKey_decryptOAuthData [keeps]: "keepsKey (decryptOAuthData c)"
  unfolding decryptOAuthData_def
  by (intro keeps) (simp add: keeps split: str.splits)

lemma keepsKey_whenPresent [keeps]:
  assumes "\<And>s. keepsKey (f s)"
  shows "keepsKey (whenPresent f x)"
  unfolding whenPresent_def using assms by (auto split: option.splits intro!: keeps)

lemma keepsKey_idOr [keeps]: "keepsKey g \<Longrightarrow> keepsKey (idOr x g)"
  unfolding idOr_def by (auto split: option.splits intro!: keeps)

lemma keepsKey_mapRowToToken [keeps]: "keepsKey (mapRowToToken row)"
  unfolding mapRowToToken_def by (intro keeps)

lemma keepsKey_getTokenByServerId [keeps]: "keepsKey (getTokenByServerId s)"
  unfolding getTokenByServerId_def
  by (intro keeps) (auto split: option.splits intro!: keeps)

lemma keepsKey_saveToken [keeps]: "keepsKey (saveToken now t)"
  unfolding saveToken_def
  by (intro keeps keepsKey_modify) simp

lemma keepsKey_decryptOAuthConfig [keeps]: "keepsKey (decryptOAuthConfig c)"
  unfolding decryptOAuthConfig_def by (intro keeps)

lemma keepsKey_getAllConfigs [keeps]: "keepsKey getAllConfigs"
  unfolding getAllConfigs_def mapRowToConfig_def by (intro keeps)

lemma keepsKey_getAllTokens [keeps]: "keepsKey getAllTokens"
  unfolding getAllTokens_def by (intro keeps)

lemma keepsKey_logSecurityEvent [keeps]: "keepsKey (logSecurityEvent now ev sev sid ds)"
  unfolding logSecurityEvent_def
  by (intro keeps keepsKey_modify) (simp add: Let_def)

lemma keepsKey_rotateToken [keeps]: "keepsKey (rotateToken now t)"
  unfolding rotateToken_def newEncryptionUtil_def by (intro keeps)

lemma keepsKey_rotateEncryptionKeys: "keepsKey (rotateEncryptionKeys now)"
  unfolding rotateEncryptionKeys_def
  by (intro keeps keepsKey_modify) simp

lemma rotation_never_changes_key:
  "keyFile w = Some k \<Longrightarrow> keyFile (snd (rotateEncryptionKeys now w)) = Some k"
  using keepsKey_rotateEncryptionKeys by (simp add: keepsKey_def)

text \<open>
  C2 (failing input). Server \<open>s1\<close> is configured and holds a token; the key file holds
  key 1. \<open>rotateEncryptionKeys\<close> leaves the key file, the token rows and the key version
  as they were and logs a failed rotation: the repository hands out decrypted tokens, so
  decrypting them again throws. On the world without tokens the rotation raises the key
  version to 2 and the key file still holds key 1.
\<close>

theorem rotation_does_not_rotate:
  "keyFile authenticatedWorld = Some 1
   \<and> keyFile (snd (rotateEncryptionKeys 5000 authenticatedWorld)) = Some 1
   \<and> server_oauth_tokens (snd (rotateEncryptionKeys 5000 authenticatedWorld))
       = server_oauth_tokens authenticatedWorld
   \<and> keyVersion (keyRotationConfig (snd (rotateEncryptionKeys 5000 authenticatedWorld))) = 1
   \<and> map log_severity (auditLogs (snd (rotateEncryptionKeys 5000 authenticatedWorld)))
       = [Failure]
   \<and> keyFile (snd (rotateEncryptionKeys 5000 configuredWorld)) = Some 1
   \<and> keyVersion (keyRotationConfig (snd (rotateEncryptionKeys 5000 configuredWorld))) = 2"
  by code_simp

subsection \<open>Token refresh\<close>

lemma attempts_all_fail:
  assumes "ep (httpExchanges w) = Inl e1"
    and "ep (httpExchanges w + 1) = Inl e2"
    and "ep (httpExchanges w + 2) = Inl e3"
  shows "attempts MAX_REFRESH_RETRIES None ep now config rt w
           = (Inl e3, w\<lparr>httpExchanges := httpExchanges w + 3\<rparr>)"
  using assms
  by (simp add: MAX_REFRESH_RETRIES_def numeral_3_eq_3 tryCatch_def refreshAccessToken_def
        bind_def makeTokenRequest_def throw_def)

lemma refreshToken_tm_all_fail:
  assumes "present (refreshToken token)"
    and "ep (httpExchanges w) = Inl e1"
    and "ep (httpExchanges w + 1) = Inl e2"
    and "ep (httpExchanges w + 2) = Inl e3"
  shows "refreshToken_tm ep now config token w
           = (Inl e3, w\<lparr>httpExchanges := httpExchanges w + 3,
                         refreshPromises := filter (\<lambda>(s, p). s \<noteq> cfg_serverId config)
                                              (refreshPromises w)\<rparr>)"
  using assms(1) attempts_all_fail [OF assms(2-4)]
  by (simp add: refreshToken_tm_def tryFinally_def performTokenRefresh_def bind_def modify_def)

text \<open>
  C4 (counterexample). Server \<open>s1\<close> holds a token whose refresh the provider answers
  with \<open>invalid_grant\<close>: after the three attempts of \<open>getValidToken\<close> the row of \<open>s1\<close>
  is still in table \<^verbatim>\<open>server_oauth_tokens\<close>.
\<close>

theorem terminal_refresh_failure_row_not_deleted:
  "httpExchanges (snd (getValidToken invalidGrant 9000 10500 ''s1'' authenticatedWorld)) = 3
   \<and> fst (getValidToken invalidGrant 9000 10500 ''s1'' authenticatedWorld) = Inr None
   \<and> map tok_serverId
        (server_oauth_tokens
           (snd (getValidToken invalidGrant 9000 10500 ''s1'' authenticatedWorld)))
       = [''s1'']"
  by code_simp

text \<open>
  C4 (amended). If a token refresh fails terminally, that is each of the three attempts
  of \<open>TokenManagerService.refreshToken\<close> gets an error from the token endpoint, the
  refresh throws the last error after exactly three requests and table
  \<^verbatim>\<open>server_oauth_tokens\<close> is left as it was: the stored row is kept.
\<close>

theorem terminal_refresh_failure_keeps_token_row:
  assumes "present (refreshToken token)"
    and "ep (httpExchanges w) = Inl e1"
    and "ep (httpExchanges w + 1) = Inl e2"
    and "ep (httpExchanges w + 2) = Inl e3"
  shows "fst (refreshToken_tm ep now config token w) = Inl e3
       \<and> httpExchanges (snd (refreshToken_tm ep now config token w)) = httpExchanges w + 3
       \<and> server_oauth_tokens (snd (refreshToken_tm ep now config token w))
           = server_oauth_tokens w"
  using refreshToken_tm_all_fail [OF assms] by simp

theorem terminal_refresh_failure_witness:
  "present (refreshToken tokenS1)
   \<and> invalidGrant (httpExchanges authenticatedWorld) = Inl (Error ''invalid_grant'')
   \<and> fst (refreshToken_tm invalidGrant 10500 configS1 tokenS1 authenticatedWorld)
       = Inl (Error ''invalid_grant'')
   \<and> server_oauth_tokens (snd (refreshToken_tm invalidGrant 10500 configS1 tokenS1 authenticatedWorld))
       = server_oauth_tokens authenticatedWorld"
proof -
  have p: "present (refreshToken tokenS1)"
    by (simp add: tokenS1_def present_def nonempty_def)
  have e: "invalidGrant k = Inl (Error ''invalid_grant'')" for k
    by (simp add: invalidGrant_def)
  show ?thesis
    using terminal_refresh_failure_keeps_token_row
            [where token = tokenS1 and ep = invalidGrant and w = authenticatedWorld
               and now = 10500 and config = configS1, OF p e e e] p e
    by simp
qed

text \<open>
  C10. A call of \<open>getValidToken\<close> finds the token of the server, the token needs a
  refresh and none is pending, so the call starts one. If the server has no
  configuration or the token no refresh token, or if all three attempts fail, the call
  does not throw: it returns the stored access token when the token's expiry is later
  than the time of the failure, and null otherwise (and when no refresh could be
  started).
\<close>

theorem getValidToken_refresh_failure_fallback:
  assumes "getTokenByServerId serverId w = (Inr (Some token), w1)"
    and "shouldRefreshToken token now"
    and "map_of (refreshPromises w1) serverId = None"
    and "getConfigByServerId serverId w1 = (Inr config, w2)"
    and "config = None \<or> \<not> present (refreshToken token)
         \<or> (isl (ep (httpExchanges w2)) \<and> isl (ep (httpExchanges w2 + 1))
            \<and> isl (ep (httpExchanges w2 + 2)))"
  shows "fst (getValidToken ep now later serverId w) =
           Inr (if config = None \<or> \<not> present (refreshToken token) then None
                else if later < the (expiresAt token) then Some (accessToken token)
                else None)"
proof (cases "config = None \<or> \<not> present (refreshToken token)")
  case True
  with assms(1-4) show ?thesis
    by (simp add: getValidToken_def bind_def gets_def ret_def)
next
  case False
  with assms(5) obtain e1 e2 e3 where
    e: "ep (httpExchanges w2) = Inl e1" "ep (httpExchanges w2 + 1) = Inl e2"
       "ep (httpExchanges w2 + 2) = Inl e3"
    by (auto simp: isl_def)
  from False have p: "present (refreshToken token)" by simp
  from False obtain c where c: "config = Some c" by auto
  have t: "truthyInt (expiresAt token)"
    using assms(2) by (simp add: shouldRefreshToken_def split: if_splits)
  show ?thesis
    using assms(1-4) c p t refreshToken_tm_all_fail [OF p e, of later c]
    by (simp add: getValidToken_def bind_def gets_def ret_def tryCatch_def
          isTokenExpired_def not_le)
qed

theorem getValidToken_refresh_failure_witness:
  "getTokenByServerId ''s1'' authenticatedWorld = (Inr (Some storedTokenS1), authenticatedWorld)
   \<and> shouldRefreshToken storedTokenS1 9000
   \<and> map_of (refreshPromises authenticatedWorld) ''s1'' = None
   \<and> getConfigByServerId ''s1'' authenticatedWorld
       = (Inr (Some storedConfigS1), authenticatedWorld)
   \<and> fst (getValidToken invalidGrant 9000 9500 ''s1'' authenticatedWorld)
       = Inr (Some (Plain ''tokA''))
   \<and> fst (getValidToken invalidGrant 9000 10500 ''s1'' authenticatedWorld) = Inr None"
proof -
  have t: "getTokenByServerId ''s1'' authenticatedWorld
             = (Inr (Some storedTokenS1), authenticatedWorld)"
    by code_simp
  have s: "shouldRefreshToken storedTokenS1 9000"
    by code_simp
  have p: "map_of (refreshPromises authenticatedWorld) ''s1'' = None"
    by code_simp
  have c: "getConfigByServerId ''s1'' authenticatedWorld
             = (Inr (Some storedConfigS1), authenticatedWorld)"
    by code_simp
  have f: "Some storedConfigS1 = None \<or> \<not> present (refreshToken storedTokenS1)
           \<or> (isl (invalidGrant (httpExchanges authenticatedWorld))
              \<and> isl (invalidGrant (httpExchanges authenticatedWorld + 1))
              \<and> isl (invalidGrant (httpExchanges authenticatedWorld + 2)))"
    by (simp add: invalidGrant_def)
  have r: "present (refreshToken storedTokenS1)" "the (expiresAt storedTokenS1) = 10000"
          "accessToken storedTokenS1 = Plain ''tokA''"
    by (simp_all add: storedTokenS1_def tokenS1_def present_def nonempty_def)
  show ?thesis
    using getValidToken_refresh_failure_fallback [OF t s p c f, of 9500]
          getValidToken_refresh_failure_fallback [OF t s p c f, of 10500] t s p c r
    by simp
qed


subsection \<open>Backup and restore\<close>

lemma logSecurityEvent_ok:
  "fst (logSecurityEvent now ev sev sid ds w) = Inr ()"
  by (simp add: logSecurityEvent_def bind_def uuidv4_def fresh_def ret_def modify_def)

lemma restoreBackup_wrong_password:
  assumes "map_of (files w) path = Some (PasswordSealed pw salt iv b)"
    and "restore_password options = Some pw'" and "pw' \<noteq> []" and "pw' \<noteq> pw"
  shows "fst (restoreBackup now path options w)
           = Inl (Error ''Unsupported state or unable to authenticate data'')
       \<and> server_oauth_tokens (snd (restoreBackup now path options w)) = server_oauth_tokens w
       \<and> server_oauth_configs (snd (restoreBackup now path options w)) = server_oauth_configs w"
  using assms
  by (simp add: restoreBackup_def tryCatch_def bind_def readBackupFile_def gets_def ret_def
        decryptBackup_def throw_def truthy_def logSecurityEvent_def uuidv4_def fresh_def
        modify_def Let_def)

lemma restoreBackup_wrong_password_example:
  "fst (restoreBackup 6000 ''b.json'' wrongPasswordOptions sealedWorld)
     = Inl (Error ''Unsupported state or unable to authenticate data'')"
  by code_simp

lemma plain_export_writes_id_token:
  "writtenSecrets (snd (createBackup 5000 None plainExportOptions authenticatedWorld))
     = [Plain ''[REDACTED]'', Plain ''idA'']"
  by code_simp

text \<open>
  C1 (failing input). Server \<open>s1\<close> is configured with client secret \<open>s3cret\<close>, stored
  sealed in its column, and no token is stored. The automatic backup, and the backup of
  the \<^verbatim>\<open>"oauth:createBackup"\<close> handler, write a JSON file in which the client secret
  stands in the clear: both ask for encryption and give no password, and the file is
  sealed only when a password is given.
\<close>

theorem backup_writes_plain_client_secret:
  "map clientSecret (server_oauth_configs configuredWorld)
     = [Some (Sealed 1 2 (Plain ''s3cret''))]
   \<and> writtenSecrets configuredWorld = []
   \<and> writtenSecrets (snd (createAutomaticBackup 5000 ''2026-01-01T00-00-00'' configuredWorld))
       = [Plain ''s3cret'']
   \<and> writtenSecrets (snd (ipc_oauth_createBackup 5000 (Some ''b.json'') configuredWorld))
       = [Plain ''s3cret'']"
  by code_simp

text \<open>
  C7 (failing input). Server \<open>s1\<close> holds access token \<open>tokA\<close>. A backup with tokens and
  passphrase \<open>pw\<close> throws and writes no file: the tokens read from the repository are
  already decrypted and \<open>createBackup\<close> decrypts them again. Restoring a backup file that
  holds \<open>tokA\<close> stores the token encrypted twice, so that the repository then reads the
  sealed form of \<open>tokA\<close> as the access token of \<open>s1\<close>.
\<close>

theorem backup_restore_loses_access_token:
  "storedAccessToken ''s1'' authenticatedWorld = Inr (Some (Plain ''tokA''))
   \<and> fst (createBackup 5000 None passwordBackupOptions authenticatedWorld)
       = Inl (Error ''Failed to decrypt OAuth data'')
   \<and> files (snd (createBackup 5000 None passwordBackupOptions authenticatedWorld)) = []
   \<and> fst (restoreBackup 6000 ''b.json''
            \<lparr>overwrite = True, restore_password = None, validateChecksum = True\<rparr>
            restoreWorld) = Inr (0, 1)
   \<and> storedAccessToken ''s1'' restoredWorld = Inr (Some (Sealed 0 1 (Plain ''tokA'')))"
  by code_simp

subsection \<open>Server Manager\<close>

lemma keys_update: "fst ` set (AList.update k v al) = insert k (fst ` set al)"
  by (simp add: dom_update)

lemma set_alist_update: "set (AList.update k v al) \<subseteq> insert (k, v) (set al)"
  by (induction al) auto

lemma keys_delete: "fst ` set (AList.delete k al) = fst ` set al - {k}"
  by (auto simp: AList.delete_eq image_iff)

lemma no_client: "map_of cs k = None \<longleftrightarrow> k \<notin> fst ` set cs"
  by (simp add: map_of_eq_None_iff)

lemma pooled_map:
  assumes "list_all (pooled cs) xs"
    and "\<And>k s. pooled cs (k, s) \<Longrightarrow> pooled cs' (k, if k = sid then f s else s)"
  shows "list_all (pooled cs') (map (\<lambda>(k, s). (k, if k = sid then f s else s)) xs)"
  using assms by (induction xs) auto

lemma pooled_setServer:
  assumes "poolInvariant m" and "distinct (map fst cs')"
    and "\<And>k s. pooled (clients m) (k, s) \<Longrightarrow> pooled cs' (k, if k = sid then f s else s)"
  shows "poolInvariant ((setServer sid f m)\<lparr>clients := cs'\<rparr>)"
  using assms pooled_map [of "clients m" "servers m" cs' sid f]
  by (simp add: poolInvariant_def setServer_def)

lemma poolInvariant_fields:
  "poolInvariant (m\<lparr>serverStatusMap := x\<rparr>) = poolInvariant m"
  "poolInvariant (m\<lparr>pendingStarts := y\<rparr>) = poolInvariant m"
  "poolInvariant (m\<lparr>serverNameToIdMap := z\<rparr>) = poolInvariant m"
  by (simp_all add: poolInvariant_def)

lemma setServer_fields:
  "setServer sid f (m\<lparr>serverStatusMap := x\<rparr>) = (setServer sid f m)\<lparr>serverStatusMap := x\<rparr>"
  "setServer sid f (m\<lparr>pendingStarts := y\<rparr>) = (setServer sid f m)\<lparr>pendingStarts := y\<rparr>"
  "setServer sid f (m\<lparr>clients := cs\<rparr>) = (setServer sid f m)\<lparr>clients := cs\<rparr>"
  "setServer sid f (setServer sid g m) = setServer sid (f \<circ> g) m"
  by (simp_all add: setServer_def comp_def case_prod_unfold)

lemma pooled_setServer_same:
  assumes "poolInvariant m"
    and "\<And>k s. pooled (clients m) (k, s) \<Longrightarrow> pooled (clients m) (k, if k = sid then f s else s)"
  shows "poolInvariant (setServer sid f m)"
  using pooled_setServer [where cs' = "clients m", OF assms(1) _ assms(2)] assms(1)
  by (simp add: poolInvariant_def setServer_def)

lemma poolInvariant_eqI:
  "poolInvariant x \<Longrightarrow> servers y = servers x \<Longrightarrow> clients y = clients x \<Longrightarrow> poolInvariant y"
  by (simp add: poolInvariant_def)

lemma poolInvariant_loaded: "poolInvariant (loaded db)"
proof -
  have "list_all (\<lambda>x. status (snd x) = Stopped)
          (fold (\<lambda>s. AList.update (srv_id s) (s\<lparr>status := Stopped\<rparr>)) db acc)"
    if "list_all (\<lambda>x. status (snd x) = Stopped) acc" for acc
    using that
  proof (induction db arbitrary: acc)
    case Nil
    then show ?case by simp
  next
    case (Cons a db)
    have "list_all (\<lambda>x. status (snd x) = Stopped)
            (AList.update (srv_id a) (a\<lparr>status := Stopped\<rparr>) acc)"
      using Cons.prems set_alist_update [of "srv_id a" "a\<lparr>status := Stopped\<rparr>" acc]
      by (auto simp: list_all_iff)
    from Cons.IH [OF this] show ?case by simp
  qed
  from this [of "[]"] show ?thesis
    by (simp add: poolInvariant_def loaded_def list_all_iff pooled_def)
qed

lemma poolInvariant_begin:
  assumes "poolInvariant m"
  shows "poolInvariant (snd (startServer_begin m sid))"
proof -
  have "poolInvariant (setServer sid (\<lambda>s. s\<lparr>status := Starting\<rparr>) m)"
    by (rule pooled_setServer_same [OF assms]) (simp add: pooled_def)
  with assms show ?thesis
    by (simp add: startServer_begin_def poolInvariant_fields split: option.splits)
qed

lemma poolInvariant_finish:
  assumes "poolInvariant m"
  shows "poolInvariant (snd (startServer_finish m sid r))"
proof (cases "find (\<lambda>(k, n). k = sid) (pendingStarts m)")
  case None
  with assms show ?thesis by (simp add: startServer_finish_def)
next
  case (Some p)
  obtain k name where p: "p = (k, name)" by (cases p)
  show ?thesis
  proof (cases r)
    case (ConnectError e)
    have "poolInvariant (setServer sid (\<lambda>s. s\<lparr>status := Errored, errorMessage := Some e\<rparr>) m)"
      by (rule pooled_setServer_same [OF assms]) (simp add: pooled_def)
    with Some p ConnectError show ?thesis
      by (simp add: startServer_finish_def Let_def poolInvariant_def setServer_def)
  next
    case (Success c)
    have d: "distinct (map fst (AList.update sid c (clients m)))"
      using assms by (simp add: poolInvariant_def distinct_update)
    have "poolInvariant ((setServer sid (\<lambda>s. s\<lparr>status := Running, errorMessage := None\<rparr>) m)
                           \<lparr>clients := AList.update sid c (clients m)\<rparr>)"
      by (rule pooled_setServer [OF assms d]) (auto simp: pooled_def keys_update)
    with Some p Success show ?thesis
      by (simp add: startServer_finish_def Let_def poolInvariant_def setServer_def)
  qed
qed

lemma poolInvariant_stop:
  assumes "poolInvariant m"
  shows "poolInvariant (snd (stopServer m sid t))"
proof (cases "map_of (servers m) sid")
  case None
  with assms show ?thesis by (simp add: stopServer_def)
next
  case (Some server)
  show ?thesis
  proof (cases "map_of (clients m) sid")
    case None
    then have n: "sid \<notin> fst ` set (clients m)" by (simp add: no_client)
    have "poolInvariant (setServer sid (\<lambda>s. s\<lparr>status := Stopped\<rparr>) m)"
      by (rule pooled_setServer_same [OF assms]) (use n in \<open>auto simp: pooled_def\<close>)
    with Some None show ?thesis by (simp add: stopServer_def)
  next
    case c: (Some client)
    show ?thesis
    proof (cases t)
      case True
      have "poolInvariant (setServer sid (\<lambda>s. s\<lparr>status := Errored\<rparr>) m)"
        by (rule pooled_setServer_same [OF assms]) (simp add: pooled_def)
      then show ?thesis
        by (rule poolInvariant_eqI)
           (use Some c True in \<open>simp_all add: stopServer_def Let_def setServer_def case_prod_unfold\<close>)
    next
      case False
      have d: "distinct (map fst (AList.delete sid (clients m)))"
        using assms by (simp add: poolInvariant_def distinct_delete)
      have "poolInvariant
              ((setServer sid (\<lambda>s. s\<lparr>status := Stopped\<rparr>) m)
                 \<lparr>clients := AList.delete sid (clients m)\<rparr>)"
        by (rule pooled_setServer [OF assms d]) (auto simp: pooled_def keys_delete)
      then show ?thesis
        by (rule poolInvariant_eqI)
           (use Some c False in \<open>simp_all add: stopServer_def Let_def setServer_def case_prod_unfold\<close>)
    qed
  qed
qed

lemma poolInvariant_delete:
  assumes "poolInvariant m"
  shows "poolInvariant (m\<lparr>serverNameToIdMap := x, servers := AList.delete sid (servers m)\<rparr>)"
  using assms by (auto simp: poolInvariant_def AList.delete_eq list_all_iff)

lemma poolInvariant_remove:
  assumes "poolInvariant m"
  shows "poolInvariant (snd (removeServer m sid t r))"
proof -
  define m1 where "m1 = (if map_of (clients m) sid \<noteq> None then snd (stopServer m sid t) else m)"
  have m1: "poolInvariant m1"
    using assms poolInvariant_stop by (simp add: m1_def)
  have "snd (removeServer m sid t r) = m1
        \<or> (\<exists>x. snd (removeServer m sid t r)
                 = m1\<lparr>serverNameToIdMap := x, servers := AList.delete sid (servers m1)\<rparr>)"
    by (auto simp: removeServer_def Let_def m1_def split: option.splits)
  with m1 poolInvariant_delete [OF m1] show ?thesis by auto
qed

lemma poolInvariant_clearAll: "poolInvariant (clearAllServers m failing)"
  by (simp add: poolInvariant_def clearAllServers_def Let_def)

lemma poolInvariant_perform: "poolInvariant m \<Longrightarrow> poolInvariant (perform op m)"
  by (cases op)
     (simp_all add: poolInvariant_begin poolInvariant_finish poolInvariant_stop
        poolInvariant_remove poolInvariant_clearAll)

lemma reachable_poolInvariant: "reachable m \<Longrightarrow> poolInvariant m"
  by (induction rule: reachable.induct) (simp_all add: poolInvariant_loaded poolInvariant_perform)

lemma transports_one:
  "distinct (map fst al) \<Longrightarrow> k \<in> fst ` set al \<Longrightarrow> length (filter (\<lambda>(k', c). k' = k) al) = 1"
proof (induction al)
  case Nil
  then show ?case by simp
next
  case (Cons a al)
  obtain k' c where a: "a = (k', c)" by (cases a)
  show ?case
  proof (cases "k' = k")
    case True
    with Cons.prems a have "filter (\<lambda>(k', c). k' = k) al = []"
      by (auto simp: filter_empty_conv image_iff)
    with True a show ?thesis by simp
  next
    case False
    with Cons a show ?thesis by auto
  qed
qed

lemma transports_none:
  "k \<notin> fst ` set al \<Longrightarrow> filter (\<lambda>(k', c). k' = k) al = []"
  by (auto simp: filter_empty_conv image_iff)

text \<open>
  C8 (counterexample). Server \<open>a\<close> is started and then stopped, and the stop throws
  inside its \<^verbatim>\<open>try\<close>: the state is reachable, the status of \<open>a\<close> is \<open>error\<close>, and
  its transport is still in the pool.
\<close>

theorem failed_stop_keeps_transport:
  "reachable failedStopA
   \<and> statusOf failedStopA ''a'' = Some Errored
   \<and> transports failedStopA ''a'' = [(''a'', 1)]"
proof -
  have "reachable failedStopA"
    unfolding failedStopA_def startedA_def by (intro reachable.intros)
  moreover have "statusOf failedStopA ''a'' = Some Errored"
    by code_simp
  moreover have "transports failedStopA ''a'' = [(''a'', 1)]"
    by code_simp
  ultimately show ?thesis by simp
qed

text \<open>
  C8 (amended). In every state reachable from loading by starts (up to and from the wait
  for the connection, so that calls may interleave), stops, removals and clear-all,
  with their failure paths, a server whose status is \<open>running\<close> has exactly one transport
  in the pool and a server whose status is \<open>stopped\<close> has none.
\<close>

theorem running_has_one_transport_stopped_none:
  assumes "reachable m" and "(sid, s) \<in> set (servers m)"
  shows "(status s = Running \<longrightarrow> length (transports m sid) = 1)
       \<and> (status s = Stopped \<longrightarrow> transports m sid = [])"
proof -
  from reachable_poolInvariant [OF assms(1)]
  have d: "distinct (map fst (clients m))" and p: "pooled (clients m) (sid, s)"
    using assms(2) by (auto simp: poolInvariant_def list_all_iff)
  from p d show ?thesis
    by (auto simp: pooled_def transports_def transports_one transports_none)
qed

theorem running_has_one_transport_witness:
  "reachable startedA
   \<and> (''a'', serverA\<lparr>status := Running\<rparr>) \<in> set (servers startedA)
   \<and> length (transports startedA ''a'') = 1
   \<and> reachable stoppedA
   \<and> (''a'', serverA) \<in> set (servers stoppedA)
   \<and> transports stoppedA ''a'' = []"
proof -
  have r1: "reachable startedA"
    unfolding startedA_def by (intro reachable.intros)
  have r2: "reachable stoppedA"
    unfolding stoppedA_def startedA_def by (intro reachable.intros)
  have s1: "servers startedA = [(''a'', serverA\<lparr>status := Running\<rparr>)]"
    by code_simp
  have s2: "servers stoppedA = [(''a'', serverA)]"
    by code_simp
  have m1: "(''a'', serverA\<lparr>status := Running\<rparr>) \<in> set (servers startedA)"
    by (simp add: s1)
  have m2: "(''a'', serverA) \<in> set (servers stoppedA)"
    by (simp add: s2)
  show ?thesis
    using running_has_one_transport_stopped_none [OF r1 m1]
          running_has_one_transport_stopped_none [OF r2 m2] r1 r2 m1 m2
    by (simp add: serverA_def)
qed


subsection \<open>Concurrent refresh\<close>

text \<open>The repository, the audit log and the timers send no request to the token endpoint.\<close>

named_theorems sends_none

lemma keepsRequests_ret [sends_none]: "keepsRequests (ret x)"
  by (simp add: keepsRequests_def ret_def)

lemma keepsRequests_throw [sends_none]: "keepsRequests (throw e)"
  by (simp add: keepsRequests_def throw_def)

lemma keepsRequests_gets [sends_none]: "keepsRequests (gets f)"
  by (simp add: keepsRequests_def gets_def)

lemma keepsRequests_fresh [sends_none]: "keepsRequests fresh"
  by (simp add: keepsRequests_def fresh_def)

lemma keepsRequests_getEncryptionKey [sends_none]: "keepsRequests getEncryptionKey"
  by (simp add: keepsRequests_def getEncryptionKey_def split: option.splits)

lemma keepsRequests_bind [sends_none]:
  assumes "keepsRequests m" and "\<And>x. keepsRequests (f x)"
  shows "keepsRequests (bind m f)"
  using assms unfolding keepsRequests_def bind_def
  by (auto split: prod.splits sum.splits) (metis snd_conv)+

lemma keepsRequests_tryCatch [sends_none]:
  assumes "keepsRequests m" and "\<And>e. keepsRequests (h e)"
  shows "keepsRequests (tryCatch m h)"
  using assms unfolding keepsRequests_def tryCatch_def
  by (auto split: prod.splits sum.splits) (metis snd_conv)+

lemma keepsRequests_modify:
  assumes "\<And>w. httpExchanges (f w) = httpExchanges w"
  shows "keepsRequests (modify f)"
  using assms by (simp add: keepsRequests_def modify_def)

lemma keepsRequests_mapM [sends_none]:
  assumes "\<And>x. keepsRequests (f x)"
  shows "keepsRequests (mapM f xs)"
  by (induction xs) (simp_all add: sends_none assms)

lemma keepsRequests_if [sends_none]:
  assumes "keepsRequests a" and "keepsRequests b"
  shows "keepsRequests (if c then a else b)"
  using assms by simp

lemma keepsRequests_uuidv4 [sends_none]: "keepsRequests uuidv4"
  unfolding uuidv4_def by (intro sends_none)

lemma keepsRequests_encryptOAuthData [sends_none]: "keepsRequests (encryptOAuthData p)"
  unfolding encryptOAuthData_def by (intro sends_none)

lemma keepsRequests_decryptOAuthData [sends_none]: "keepsRequests (decryptOAuthData c)"
  unfolding decryptOAuthData_def
  by (intro sends_none) (simp add: sends_none split: str.splits)

lemma keepsRequests_whenPresent [sends_none]:
  assumes "\<And>s. keepsRequests (f s)"
  shows "keepsRequests (whenPresent f x)"
  unfolding whenPresent_def using assms by (auto split: option.splits intro!: sends_none)

lemma keepsRequests_idOr [sends_none]: "keepsRequests g \<Longrightarrow> keepsRequests (idOr x g)"
  unfolding idOr_def by (auto split: option.splits intro!: sends_none)

lemma keepsRequests_mapRowToToken [sends_none]: "keepsRequests (mapRowToToken row)"
  unfolding mapRowToToken_def by (intro sends_none)



lemma keepsRequests_decryptOAuthConfig [sends_none]: "keepsRequests (decryptOAuthConfig c)"
  unfolding decryptOAuthConfig_def by (intro sends_none)




lemma keepsRequests_incrementRefreshCount [sends_none]:
  "keepsRequests (incrementRefreshCount now s)"
  unfolding incrementRefreshCount_def by (intro keepsRequests_modify) simp













































end
